theory Spec2Isabelle
  imports Complex_Main
begin

section \<open>Python values: strings, errors\<close>

text \<open>
  A Python \<open>str\<close> is a sequence of Unicode code points; it is modelled as the list of
  its code points. \<open>py\<close> embeds an ASCII literal. Python floats are modelled as exact
  reals (rounding is not modelled).
\<close>

type_synonym pystr = "nat list"

definition py :: "string \<Rightarrow> pystr" where
  "py s = map of_char s"

datatype error =
    StoreError
  | TypeError
  | ValueError
  | IndexError
  | ZeroDivisionError
  | OtherError

text \<open>\<open>str.isspace\<close> of one code point (the separators of \<open>str.split()\<close> and \<open>str.strip()\<close>).\<close>

definition is_space :: "nat \<Rightarrow> bool" where
  "is_space c =
     ((9 \<le> c \<and> c \<le> 13) \<or> (28 \<le> c \<and> c \<le> 32) \<or> c = 133 \<or> c = 160 \<or> c = 5760
      \<or> (8192 \<le> c \<and> c \<le> 8202) \<or> c = 8232 \<or> c = 8233 \<or> c = 8239 \<or> c = 8287
      \<or> c = 12288)"

text \<open>\<open>s.split()\<close>: maximal runs of non-whitespace, no empty tokens.\<close>

fun split_acc :: "pystr \<Rightarrow> pystr \<Rightarrow> pystr list" where
  "split_acc cur [] = (if cur = [] then [] else [cur])"
| "split_acc cur (c # cs) =
     (if is_space c
      then (if cur = [] then split_acc [] cs else cur # split_acc [] cs)
      else split_acc (cur @ [c]) cs)"

definition split :: "pystr \<Rightarrow> pystr list" where
  "split s = split_acc [] s"

section \<open>rag/retriever\_vector.py: MMR re-ranking\<close>

text \<open>A row of \<open>fetch_knn\<close>: the columns of its SELECT.\<close>

record hit =
  chunk_id :: pystr
  doc_id :: pystr
  source :: pystr
  language :: pystr
  section_path :: pystr
  hit_text :: pystr
  cosine_sim :: real

text \<open>
  \<open>jaccard(a, b)\<close>: \<open>inter = len(a & b); uni = len(a | b) or 1; return inter/uni\<close>.
  The division raises on a zero divisor.
\<close>

definition jaccard :: "pystr set \<Rightarrow> pystr set \<Rightarrow> error + real" where
  "jaccard a b =
     (let inter = card (a \<inter> b);
          uni = (if card (a \<union> b) = 0 then 1 else card (a \<union> b))
      in if uni = 0 then Inl ZeroDivisionError else Inr (real inter / real uni))"

text \<open>Evaluating a generator of fallible values: the first error aborts.\<close>

fun collect :: "(error + 'a) list \<Rightarrow> error + 'a list" where
  "collect [] = Inr []"
| "collect (r # rs) =
     (case r of
        Inl e \<Rightarrow> Inl e
      | Inr x \<Rightarrow> (case collect rs of Inl e \<Rightarrow> Inl e | Inr xs \<Rightarrow> Inr (x # xs)))"

text \<open>\<open>max(xs, default=0.0)\<close>.\<close>

fun max_default :: "real list \<Rightarrow> real" where
  "max_default [] = 0"
| "max_default (x # xs) = fold max xs x"

text \<open>\<open>toks[i]\<close> raises IndexError out of range.\<close>

definition getitem :: "'a list \<Rightarrow> nat \<Rightarrow> error + 'a" where
  "getitem xs i = (if i < length xs then Inr (xs ! i) else Inl IndexError)"

text \<open>
  \<open>red = max((jaccard(toks[j], toks[si]) for si in selected_idx), default=0.0)\<close>
\<close>

definition redundancy :: "pystr set list \<Rightarrow> nat \<Rightarrow> nat list \<Rightarrow> error + real" where
  "redundancy toks j selected_idx =
     (case collect (map (\<lambda>si.
              case getitem toks j of
                Inl e \<Rightarrow> Inl e
              | Inr a \<Rightarrow> (case getitem toks si of Inl e \<Rightarrow> Inl e | Inr b \<Rightarrow> jaccard a b))
            selected_idx) of
        Inl e \<Rightarrow> Inl e
      | Inr js \<Rightarrow> Inr (max_default js))"

text \<open>
  The inner \<open>for j, h in enumerate(hits)\<close> loop, over the pairs still to visit, carrying
  \<open>(best_j, best_score)\<close>.
\<close>

fun scan :: "real \<Rightarrow> pystr set list \<Rightarrow> nat list \<Rightarrow> (nat \<times> hit) list
    \<Rightarrow> nat option \<times> real \<Rightarrow> error + (nat option \<times> real)" where
  "scan lambda_mult toks selected_idx [] best = Inr best"
| "scan lambda_mult toks selected_idx ((j, h) # rest) (best_j, best_score) =
     (if j \<in> set selected_idx then scan lambda_mult toks selected_idx rest (best_j, best_score)
      else
        (case redundancy toks j selected_idx of
           Inl e \<Rightarrow> Inl e
         | Inr red \<Rightarrow>
            (let rel = cosine_sim h;
                 score = lambda_mult * rel - (1 - lambda_mult) * red
             in if score > best_score
                then scan lambda_mult toks selected_idx rest (Some j, score)
                else scan lambda_mult toks selected_idx rest (best_j, best_score))))"

definition sentinel :: real where
  "sentinel = - 1000000000"

text \<open>
  The \<open>while len(selected) < top_k and len(selected) < len(hits)\<close> loop.
  \<open>hits[best_j]\<close> with \<open>best_j = None\<close> raises TypeError.
\<close>

function select_loop :: "real \<Rightarrow> int \<Rightarrow> hit list \<Rightarrow> pystr set list \<Rightarrow> hit list \<Rightarrow> nat list
    \<Rightarrow> error + hit list" where
  "select_loop lambda_mult top_k hits toks selected selected_idx =
     (if int (length selected) < top_k \<and> length selected < length hits
      then
        (case scan lambda_mult toks selected_idx (enumerate 0 hits) (None, sentinel) of
           Inl e \<Rightarrow> Inl e
         | Inr (None, _) \<Rightarrow> Inl TypeError
         | Inr (Some best_j, _) \<Rightarrow>
            (case getitem hits best_j of
               Inl e \<Rightarrow> Inl e
             | Inr h \<Rightarrow> select_loop lambda_mult top_k hits toks (selected @ [h])
                          (selected_idx @ [best_j])))
      else Inr selected)"
  by pat_completeness auto
termination
  by (relation "measure (\<lambda>(l, k, hits, toks, selected, idx). length hits - length selected)")
     auto

declare select_loop.simps [simp del]

text \<open>\<open>np.argmax\<close>: the first index of the maximum; ValueError on an empty list.\<close>

fun argmax_from :: "real list \<Rightarrow> nat \<Rightarrow> nat \<Rightarrow> real \<Rightarrow> nat" where
  "argmax_from [] i best_i best = best_i"
| "argmax_from (x # xs) i best_i best =
     (if x > best then argmax_from xs (Suc i) i x else argmax_from xs (Suc i) best_i best)"

definition argmax :: "real list \<Rightarrow> error + nat" where
  "argmax xs = (case xs of [] \<Rightarrow> Inl ValueError | x # rest \<Rightarrow> Inr (argmax_from rest 1 0 x))"

text \<open>\<open>mmr_rerank(qvec, hits, lambda_mult, top_k)\<close>; \<open>qvec\<close> is not used by the body.\<close>

definition mmr_rerank :: "'v \<Rightarrow> hit list \<Rightarrow> real \<Rightarrow> int \<Rightarrow> error + hit list" where
  "mmr_rerank qvec hits lambda_mult top_k =
     (if int (length hits) \<le> top_k then Inr hits
      else
        (let toks = map (\<lambda>h. set (split (hit_text h))) hits
         in case argmax (map cosine_sim hits) of
              Inl e \<Rightarrow> Inl e
            | Inr idx \<Rightarrow>
               (case getitem hits idx of
                  Inl e \<Rightarrow> Inl e
                | Inr h \<Rightarrow> select_loop lambda_mult top_k hits toks [h] [idx])))"

text \<open>The three candidates of the end-to-end scenario.\<close>

definition cand :: "string \<Rightarrow> real \<Rightarrow> hit" where
  "cand t s = \<lparr>chunk_id = [], doc_id = [], source = [], language = [], section_path = [],
               hit_text = py t, cosine_sim = s\<rparr>"

definition scenario :: "hit list" where
  "scenario = [cand ''a b c'' (9/10), cand ''a b d'' (85/100), cand ''x y z'' (5/10)]"

text \<open>
  Well-formed candidates: the similarity is a cosine similarity, in \<open>[-1, 1]\<close>.
\<close>

definition well_formed :: "hit list \<Rightarrow> bool" where
  "well_formed hits = list_all (\<lambda>h. - 1 \<le> cosine_sim h \<and> cosine_sim h \<le> 1) hits"

section \<open>Python strings: the operations the retrieval core uses\<close>

text \<open>\<open>sub in s\<close>: substring test.\<close>

fun starts_with :: "pystr \<Rightarrow> pystr \<Rightarrow> bool" where
  "starts_with s [] = True"
| "starts_with [] (c # cs) = False"
| "starts_with (x # xs) (c # cs) = (x = c \<and> starts_with xs cs)"

fun contains :: "pystr \<Rightarrow> pystr \<Rightarrow> bool" where
  "contains [] sub = (sub = [])"
| "contains (x # xs) sub = (starts_with (x # xs) sub \<or> contains xs sub)"

text \<open>\<open>s.strip()\<close>, \<open>s.strip(chars)\<close>, \<open>s.rstrip(chars)\<close> and \<open>sep.join(xs)\<close>.\<close>

definition strip :: "pystr \<Rightarrow> pystr" where
  "strip s = rev (dropWhile is_space (rev (dropWhile is_space s)))"

definition strip_chars :: "pystr \<Rightarrow> pystr \<Rightarrow> pystr" where
  "strip_chars chars s =
     rev (dropWhile (\<lambda>c. c \<in> set chars) (rev (dropWhile (\<lambda>c. c \<in> set chars) s)))"

definition rstrip_chars :: "pystr \<Rightarrow> pystr \<Rightarrow> pystr" where
  "rstrip_chars chars s = rev (dropWhile (\<lambda>c. c \<in> set chars) (rev s))"

fun join :: "pystr \<Rightarrow> pystr list \<Rightarrow> pystr" where
  "join sep [] = []"
| "join sep [x] = x"
| "join sep (x # y # ys) = x @ sep @ join sep (y # ys)"

text \<open>\<open>str(n)\<close> for an integer.\<close>

fun nat_str :: "nat \<Rightarrow> pystr" where
  "nat_str n = (if n < 10 then [48 + n] else nat_str (n div 10) @ [48 + n mod 10])"

declare nat_str.simps [simp del]

definition int_str :: "int \<Rightarrow> pystr" where
  "int_str i = (if i < 0 then 45 # nat_str (nat (- i)) else nat_str (nat i))"

text \<open>
  What the Python runtime provides and the repository does not define: \<open>str.lower\<close>
  (the Unicode case mapping), \<open>unicodedata.normalize("NFC", _)\<close> and the formatting
  \<open>f"{x}"\<close> of a float.
\<close>

record pyenv =
  str_lower :: "pystr \<Rightarrow> pystr"
  nfc :: "pystr \<Rightarrow> pystr"
  float_str :: "real \<Rightarrow> pystr"

text \<open>
  A runtime for concrete runs on ASCII text and integral floats: there \<open>str.lower\<close> maps
  \<open>A-Z\<close> to \<open>a-z\<close>, NFC is the identity, and a float prints as the integer followed by \<open>.0\<close>.
\<close>

definition ascii_lower :: "pystr \<Rightarrow> pystr" where
  "ascii_lower s = map (\<lambda>c. if 65 \<le> c \<and> c \<le> 90 then c + 32 else c) s"

definition ascii_env :: pyenv where
  "ascii_env = \<lparr>str_lower = ascii_lower, nfc = (\<lambda>s. s),
                 float_str = (\<lambda>x. int_str \<lfloor>x\<rfloor> @ py ''.0'')\<rparr>"

section \<open>rag/router.py: intent detection\<close>

datatype intent = Disease | Climate | Season | Fertilizer

text \<open>The four keyword lists of \<open>_detect_intent\<close>, Bangla keywords by code point.\<close>

definition DISEASE :: "pystr list" where
  "DISEASE =
    [[0x9B0, 0x9CB, 0x997],
     [0x9AA, 0x9CB, 0x995, 0x9BE],
     [0x995, 0x9C0, 0x99F],
     py ''disease'',
     py ''pest'',
     py ''blight'',
     py ''blast'',
     py ''bacterial'',
     py ''fungal'']"

definition CLIMATE :: "pystr list" where
  "CLIMATE =
    [[0x99C, 0x9B2, 0x9AC, 0x9BE, 0x9AF, 0x9BC, 0x9C1],
     [0x9A4, 0x9BE, 0x9AA, 0x9AE, 0x9BE, 0x9A4, 0x9CD, 0x9B0, 0x9BE],
     [0x986, 0x9B0, 0x9CD, 0x9A6, 0x9CD, 0x9B0, 0x9A4, 0x9BE],
     py ''climate'',
     py ''temperature'',
     py ''humidity'']"

definition SEASON :: "pystr list" where
  "SEASON =
    [[0x9AE, 0x9CC, 0x9B8, 0x9C1, 0x9AE],
     [0x9B0, 0x9CB, 0x9AA, 0x9A3],
     [0x9B0, 0x9CB, 0x9AA, 0x9A8],
     [0x995, 0x9BE, 0x99F, 0x9BE],
     py ''transplant'',
     py ''harvest'',
     py ''season'']"

definition FERT :: "pystr list" where
  "FERT =
    [[0x9B8, 0x9BE, 0x9B0],
     py ''fertilizer'',
     py ''npk'',
     [0x9A1, 0x9CB, 0x99C],
     [0x9AE, 0x9BE, 0x9A4, 0x9CD, 0x9B0, 0x9BE]]"

text \<open>\<open>has(xs) = any(x in ql for x in xs)\<close>\<close>

definition has :: "pystr \<Rightarrow> pystr list \<Rightarrow> bool" where
  "has ql xs = list_ex (\<lambda>x. contains ql x) xs"

text \<open>\<open>_detect_intent(q)\<close>; the result \<open>None\<close> is the outcome "none".\<close>

definition detect_intent :: "pyenv \<Rightarrow> pystr \<Rightarrow> intent option" where
  "detect_intent env q =
     (let ql = str_lower env q
      in if has ql DISEASE then Some Disease
         else if has ql CLIMATE then Some Climate
         else if has ql SEASON then Some Season
         else if has ql FERT then Some Fertilizer
         else None)"

text \<open>
  The classifier in the specification's words: an ordered list of (category, keyword set)
  pairs, evaluated first-match-wins on the lower-cased question.
\<close>

definition intent_table :: "(intent \<times> pystr list) list" where
  "intent_table = [(Disease, DISEASE), (Climate, CLIMATE), (Season, SEASON), (Fertilizer, FERT)]"

definition classify_spec :: "pystr \<Rightarrow> intent option" where
  "classify_spec ql = map_option fst (find (\<lambda>(c, ks). has ql ks) intent_table)"

section \<open>Collaborator calls and exceptions\<close>

text \<open>
  The queries sent to the graph store: the four crop-resolution queries of \<open>resolve_crop\<close>
  and the fact queries, each with its parameters.
\<close>

datatype cypher =
    CyExact pystr
  | CyAlias pystr
  | CyFt pystr
  | CyContains pystr
  | CySeasons "pystr option"
  | CyLocations "pystr option" int
  | CyClimate "pystr option"
  | CyDiseases "pystr option"

text \<open>
  The calls that leave the retrieval core: a graph query, an encoding by the embedding
  model, a connection to and a query of the vector store, a text generation.
\<close>

datatype call =
    GraphQuery cypher
  | Encode pystr
  | PgConnect
  | PgQuery int "pystr option" "pystr option"
  | Generate pystr

text \<open>
  A computation returns the calls it made, in order, and either the exception that ended
  it or its value. \<open>attempt m h\<close> is \<open>try: m  except Exception: h\<close>.
\<close>

type_synonym 'a eff = "call list \<times> (error + 'a)"

definition ret :: "'a \<Rightarrow> 'a eff" where
  "ret x = ([], Inr x)"

definition raise :: "error \<Rightarrow> 'a eff" where
  "raise e = ([], Inl e)"

definition and_then :: "'a eff \<Rightarrow> ('a \<Rightarrow> 'b eff) \<Rightarrow> 'b eff" where
  "and_then m f =
     (case m of
        (t, Inl e) \<Rightarrow> (t, Inl e)
      | (t, Inr x) \<Rightarrow> (case f x of (t', r) \<Rightarrow> (t @ t', r)))"

definition attempt :: "'a eff \<Rightarrow> 'a eff \<Rightarrow> 'a eff" where
  "attempt m h =
     (case m of
        (t, Inl e) \<Rightarrow> (case h of (t', r) \<Rightarrow> (t @ t', r))
      | (t, Inr x) \<Rightarrow> (t, Inr x))"

section \<open>rag/retriever\_graph.py: the graph store\<close>

text \<open>A number stored in the graph: Python \<open>int\<close> or \<open>float\<close>.\<close>

datatype num = PyInt int | PyFloat real

text \<open>
  The rows the queries return, one record per RETURN clause; a column is \<open>None\<close> when the
  property is null.
\<close>

record crop_ref =
  cid :: "pystr option"
  name_bn :: "pystr option"
  name_en :: "pystr option"
  slug :: "pystr option"

record climate_row =
  min_temp_c :: "num option"
  max_temp_c :: "num option"
  min_rh :: "num option"
  max_rh :: "num option"

record season_row =
  season_id :: "pystr option"
  season_name :: "pystr option"

record location_row =
  location_id :: "pystr option"
  location_name :: "pystr option"
  season :: "pystr option"
  transplant :: "pystr option"
  harvest :: "pystr option"
  production :: "int option"
  avg_temp_c :: "num option"
  avg_humidity :: "num option"

record disease_row =
  disease_id :: "pystr option"
  disease_name_bn :: "pystr option"
  disease_name_en :: "pystr option"
  disease_notes :: "pystr option"

text \<open>
  The property graph, as far as the queries traverse it. A Crop node carries its properties
  and its outgoing SUITABLE\_IN, CULTIVATED\_IN and SUFFER\_FROM relationships, each with the
  columns the queries read from the relationship and its target node; an Alias node carries
  its name and the crops it is ALIAS\_OF. List order is the store's match order.
  \<open>fulltext\<close> is the index \<open>cropFulltext\<close> with its scores, \<open>to_lower\<close> Cypher's \<open>toLower\<close>,
  \<open>str_le\<close> the store's string order for ORDER BY, and \<open>fails\<close> tells which queries raise.
\<close>

record crop_node = crop_ref +
  climate :: climate_row
  suitable_in :: "season_row list"
  cultivated_in :: "location_row list"
  suffer_from :: "disease_row list"

record alias_node =
  alias_name :: "pystr option"
  alias_of :: "crop_node list"

record graph =
  crops :: "crop_node list"
  aliases :: "alias_node list"
  fulltext :: "pystr \<Rightarrow> (crop_node \<times> real) list"
  to_lower :: "pystr \<Rightarrow> pystr"
  str_le :: "pystr \<Rightarrow> pystr \<Rightarrow> bool"
  fails :: "cypher \<Rightarrow> bool"

text \<open>\<open>_run(cypher, **params)\<close>: one call of the store; \<open>rows\<close> is what the query denotes.\<close>

definition run :: "graph \<Rightarrow> cypher \<Rightarrow> 'r list \<Rightarrow> 'r list eff" where
  "run g c rows = ([GraphQuery c], if fails g c then Inl StoreError else Inr rows)"

definition MANUAL_ALIASES :: "(pystr \<times> pystr list) list" where
  "MANUAL_ALIASES =
    [([0x986, 0x9AE, 0x9A8], [py ''Aman'']),
     ([0x986, 0x989, 0x9B6], [py ''Aus Rice'']),
     ([0x9AC, 0x9CB, 0x9B0, 0x9CB], [py ''Boro''])]"

text \<open>
  \<open>_normalize_bn\<close>: NFC, removal of the zero-width characters U+200B..U+200D, U+2060,
  U+FEFF, strip.
\<close>

definition normalize_bn :: "pyenv \<Rightarrow> pystr \<Rightarrow> pystr" where
  "normalize_bn env s =
     (if s = [] then []
      else strip (filter (\<lambda>c. \<not> ((0x200B \<le> c \<and> c \<le> 0x200D) \<or> c = 0x2060 \<or> c = 0xFEFF))
                    (nfc env s)))"

text \<open>\<open>_BN_DIGITS\<close> and \<open>_bn_num\<close>.\<close>

definition BN_DIGITS :: "(nat \<times> nat) list" where
  "BN_DIGITS = zip (py ''0123456789'') [0x9E6, 0x9E7, 0x9E8, 0x9E9, 0x9EA, 0x9EB, 0x9EC, 0x9ED, 0x9EE, 0x9EF]"

definition translate :: "(nat \<times> nat) list \<Rightarrow> pystr \<Rightarrow> pystr" where
  "translate tab s = map (\<lambda>c. case map_of tab c of None \<Rightarrow> c | Some d \<Rightarrow> d) s"

definition bn_num :: "pyenv \<Rightarrow> num option \<Rightarrow> pystr" where
  "bn_num env x =
     (case x of
        None \<Rightarrow> []
      | Some (PyInt i) \<Rightarrow> translate BN_DIGITS (int_str i)
      | Some (PyFloat r) \<Rightarrow>
          translate BN_DIGITS (rstrip_chars (py ''.'') (rstrip_chars (py ''0'') (float_str env r))))"

text \<open>\<open>_SEASON_MAP\<close> and \<open>_bn_season\<close>.\<close>

definition SEASON_MAP :: "(pystr \<times> pystr) list" where
  "SEASON_MAP =
    [(py ''Kharif 1'', [0x996, 0x9B0, 0x9BF, 0x9AB, 0x2D, 0x9E7]),
     (py ''Kharif1'', [0x996, 0x9B0, 0x9BF, 0x9AB, 0x2D, 0x9E7]),
     (py ''Kharif 2'', [0x996, 0x9B0, 0x9BF, 0x9AB, 0x2D, 0x9E8]),
     (py ''Kharif2'', [0x996, 0x9B0, 0x9BF, 0x9AB, 0x2D, 0x9E8]),
     (py ''Rabi'', [0x9B0, 0x9AC, 0x9BF]),
     (py ''Aus'', [0x986, 0x989, 0x9B6]),
     (py ''Aman'', [0x986, 0x9AE, 0x9A8]),
     (py ''Boro'', [0x9AC, 0x9CB, 0x9B0, 0x9CB])]"

definition truthy :: "pystr option \<Rightarrow> bool" where
  "truthy v = (case v of None \<Rightarrow> False | Some s \<Rightarrow> s \<noteq> [])"

definition bn_season :: "pystr option \<Rightarrow> pystr" where
  "bn_season s =
     (case s of
        None \<Rightarrow> []
      | Some t \<Rightarrow> (if t = [] then [] else (case map_of SEASON_MAP t of None \<Rightarrow> t | Some b \<Rightarrow> b)))"

subsection \<open>The Cypher queries\<close>

definition coalesce :: "'a option \<Rightarrow> 'a \<Rightarrow> 'a" where
  "coalesce v d = (case v of None \<Rightarrow> d | Some x \<Rightarrow> x)"

definition crop_row :: "crop_node \<Rightarrow> crop_ref" where
  "crop_row c = \<lparr>cid = cid c, name_bn = name_bn c, name_en = name_en c, slug = slug c\<rparr>"

text \<open>ORDER BY on a string column, ascending, nulls last: a stable insertion sort.\<close>

fun insert_by :: "('a \<Rightarrow> 'a \<Rightarrow> bool) \<Rightarrow> 'a \<Rightarrow> 'a list \<Rightarrow> 'a list" where
  "insert_by le x [] = [x]"
| "insert_by le x (y # ys) = (if le x y then x # y # ys else y # insert_by le x ys)"

definition order_by_str :: "graph \<Rightarrow> ('r \<Rightarrow> pystr option) \<Rightarrow> 'r list \<Rightarrow> 'r list" where
  "order_by_str g col rows =
     foldr (insert_by (\<lambda>a b. str_le g (coalesce (col a) []) (coalesce (col b) [])))
       (filter (\<lambda>r. col r \<noteq> None) rows) []
     @ filter (\<lambda>r. col r = None) rows"

text \<open>\<open>cy_exact\<close>\<close>

definition exact_match :: "graph \<Rightarrow> pystr \<Rightarrow> crop_node \<Rightarrow> bool" where
  "exact_match g q c =
     (to_lower g (coalesce (cid c) []) = to_lower g q
      \<or> to_lower g (coalesce (name_bn c) []) = to_lower g q
      \<or> to_lower g (coalesce (name_en c) []) = to_lower g q
      \<or> (slug c \<noteq> None \<and> to_lower g (coalesce (slug c) []) = to_lower g q))"

definition cy_exact :: "graph \<Rightarrow> pystr \<Rightarrow> crop_ref list" where
  "cy_exact g q = take 1 (map crop_row (filter (exact_match g q) (crops g)))"

text \<open>\<open>cy_alias\<close>\<close>

definition cy_alias :: "graph \<Rightarrow> pystr \<Rightarrow> crop_ref list" where
  "cy_alias g q =
     take 1 (concat (map (\<lambda>a. map crop_row (alias_of a))
       (filter (\<lambda>a. to_lower g (coalesce (alias_name a) []) = to_lower g q) (aliases g))))"

text \<open>\<open>cy_ft\<close>: ORDER BY score DESC LIMIT 1\<close>

definition cy_ft :: "graph \<Rightarrow> pystr \<Rightarrow> crop_ref list" where
  "cy_ft g q = take 1 (map (\<lambda>(node, score). crop_row node)
                         (sort_key (\<lambda>(node, score). - score) (fulltext g q)))"

text \<open>\<open>cy_contains\<close>\<close>

definition contains_match :: "graph \<Rightarrow> pystr \<Rightarrow> crop_node \<Rightarrow> bool" where
  "contains_match g q c =
     (contains (to_lower g (coalesce (name_bn c) [])) (to_lower g q)
      \<or> contains (to_lower g (coalesce (name_en c) [])) (to_lower g q)
      \<or> (slug c \<noteq> None \<and> contains (to_lower g (coalesce (slug c) [])) (to_lower g q)))"

definition cy_contains :: "graph \<Rightarrow> pystr \<Rightarrow> crop_ref list" where
  "cy_contains g q = take 1 (map crop_row (filter (contains_match g q) (crops g)))"

text \<open>\<open>MATCH (c:Crop {id:$id})\<close>: a null parameter matches no node.\<close>

definition crops_with_id :: "graph \<Rightarrow> pystr option \<Rightarrow> crop_node list" where
  "crops_with_id g crop_id = filter (\<lambda>c. crop_id \<noteq> None \<and> cid c = crop_id) (crops g)"

definition cy_seasons :: "graph \<Rightarrow> pystr option \<Rightarrow> season_row list" where
  "cy_seasons g crop_id =
     order_by_str g season_name (concat (map suitable_in (crops_with_id g crop_id)))"

text \<open>\<open>ORDER BY coalesce(r.production, -1) DESC LIMIT $limit\<close>\<close>

definition production_key :: "location_row \<Rightarrow> int" where
  "production_key r = coalesce (production r) (- 1)"

definition cy_locations :: "graph \<Rightarrow> pystr option \<Rightarrow> int \<Rightarrow> location_row list" where
  "cy_locations g crop_id limit =
     take (nat limit)
       (sort_key (\<lambda>r. - production_key r) (concat (map cultivated_in (crops_with_id g crop_id))))"

definition cy_climate :: "graph \<Rightarrow> pystr option \<Rightarrow> climate_row list" where
  "cy_climate g crop_id = map climate (crops_with_id g crop_id)"

definition cy_diseases :: "graph \<Rightarrow> pystr option \<Rightarrow> disease_row list" where
  "cy_diseases g crop_id =
     order_by_str g disease_name_bn (concat (map suffer_from (crops_with_id g crop_id)))"

subsection \<open>Crop resolution\<close>

text \<open>
  The last loop of \<open>resolve_crop\<close>, over the items of \<open>_MANUAL_ALIASES\<close> still to visit.
\<close>

fun manual_loop :: "pyenv \<Rightarrow> graph \<Rightarrow> pystr \<Rightarrow> (pystr \<times> pystr list) list
    \<Rightarrow> crop_ref option eff" where
  "manual_loop env g q [] = ret None"
| "manual_loop env g q ((key, targets) # rest) =
     (if contains q (normalize_bn env key)
      then
        (case getitem targets 0 of
           Inl e \<Rightarrow> raise e
         | Inr t \<Rightarrow>
            and_then (run g (CyContains t) (cy_contains g t)) (\<lambda>hit.
              if hit \<noteq> [] then ret (Some (hd hit)) else manual_loop env g q rest))
      else manual_loop env g q rest)"

text \<open>
  \<open>resolve_crop(q)\<close>. Only the alias query runs inside \<open>try ... except Exception: pass\<close>.
\<close>

definition resolve_crop :: "pyenv \<Rightarrow> graph \<Rightarrow> pystr \<Rightarrow> crop_ref option eff" where
  "resolve_crop env g q0 =
     (let q = normalize_bn env q0
      in and_then (run g (CyExact q) (cy_exact g q)) (\<lambda>rows.
           if rows \<noteq> [] then ret (Some (hd rows))
           else
             and_then (attempt (run g (CyAlias q) (cy_alias g q)) (ret [])) (\<lambda>rows.
               if rows \<noteq> [] then ret (Some (hd rows))
               else
                 and_then (run g (CyFt q) (cy_ft g q)) (\<lambda>rows.
                   if rows \<noteq> [] then ret (Some (hd rows))
                   else
                     and_then (run g (CyContains q) (cy_contains g q)) (\<lambda>rows.
                       if rows \<noteq> [] then ret (Some (hd rows))
                       else manual_loop env g q MANUAL_ALIASES)))))"

subsection \<open>Query helpers\<close>

definition crop_seasons :: "graph \<Rightarrow> pystr option \<Rightarrow> season_row list eff" where
  "crop_seasons g crop_id = run g (CySeasons crop_id) (cy_seasons g crop_id)"

text \<open>\<open>crop_locations(crop_id, limit)\<close>; the store rejects a negative LIMIT.\<close>

definition crop_locations :: "graph \<Rightarrow> pystr option \<Rightarrow> int \<Rightarrow> location_row list eff" where
  "crop_locations g crop_id limit =
     (if limit < 0 then ([GraphQuery (CyLocations crop_id limit)], Inl StoreError)
      else run g (CyLocations crop_id limit) (cy_locations g crop_id limit))"

definition crop_climate :: "graph \<Rightarrow> pystr option \<Rightarrow> climate_row option eff" where
  "crop_climate g crop_id =
     and_then (run g (CyClimate crop_id) (cy_climate g crop_id)) (\<lambda>rows.
       ret (if rows \<noteq> [] then Some (hd rows) else None))"

definition crop_diseases :: "graph \<Rightarrow> pystr option \<Rightarrow> disease_row list eff" where
  "crop_diseases g crop_id =
     attempt (run g (CyDiseases crop_id) (cy_diseases g crop_id)) (ret [])"

subsection \<open>The GraphRAG answer\<close>

text \<open>The bullets of \<open>graph_answer_for_crop\<close>, one definition per \<open>bullets.append\<close>.\<close>

definition SEASON_LABEL :: pystr where
  "SEASON_LABEL = [0x989, 0x9AA, 0x9AF, 0x9CB, 0x997, 0x9C0, 0x20, 0x9AE, 0x9CC, 0x9B8, 0x9C1, 0x9AE, 0x3A, 0x20]"

definition TEMP_LABEL :: pystr where
  "TEMP_LABEL = [0x9A4, 0x9BE, 0x9AA, 0x9AE, 0x9BE, 0x9A4, 0x9CD, 0x9B0, 0x9BE, 0x3A, 0x20]"

definition RH_LABEL :: pystr where
  "RH_LABEL = [0x986, 0x9AA, 0x9C7, 0x995, 0x9CD, 0x9B7, 0x9BF, 0x995, 0x20, 0x986, 0x9B0, 0x9CD, 0x9A6, 0x9CD, 0x9B0, 0x9A4, 0x9BE, 0x3A, 0x20]"

definition DISEASE_LABEL :: pystr where
  "DISEASE_LABEL = [0x9B0, 0x9CB, 0x997, 0x3A, 0x20]"

definition LOCATION_LABEL :: pystr where
  "LOCATION_LABEL = [0x99A, 0x9BE, 0x9B7, 0x9C7, 0x9B0, 0x20, 0x99C, 0x9C7, 0x9B2, 0x9BE, 0x20, 0x28, 0x989, 0x9A6, 0x9BE, 0x9B9, 0x9B0, 0x9A3, 0x29, 0x3A, 0x20]"

text \<open>The placeholder of an absent bound (an em dash) and the range separator (an en dash).\<close>

definition DASH :: pystr where
  "DASH = [0x2014]"

definition RANGE_SEP :: pystr where
  "RANGE_SEP = [0x2013]"

definition season_bullet :: "season_row list \<Rightarrow> pystr list" where
  "season_bullet seasons =
     (if seasons \<noteq> []
      then (let names = map (\<lambda>s. bn_season (season_name s))
                          (filter (\<lambda>s. truthy (season_name s)) seasons)
            in if names \<noteq> [] then [SEASON_LABEL @ join (py '' / '') names] else [])
      else [])"

definition temp_bullet :: "pyenv \<Rightarrow> climate_row option \<Rightarrow> pystr list" where
  "temp_bullet env clim =
     (case clim of
        None \<Rightarrow> []
      | Some c \<Rightarrow>
         (if min_temp_c c \<noteq> None \<or> max_temp_c c \<noteq> None
          then (let lo = (if min_temp_c c \<noteq> None then bn_num env (min_temp_c c) else DASH);
                    hi = (if max_temp_c c \<noteq> None then bn_num env (max_temp_c c) else DASH)
                in [TEMP_LABEL @ lo @ RANGE_SEP @ hi @ [0xB0, 0x43]])
          else []))"

definition rh_bullet :: "pyenv \<Rightarrow> climate_row option \<Rightarrow> pystr list" where
  "rh_bullet env clim =
     (case clim of
        None \<Rightarrow> []
      | Some c \<Rightarrow>
         (if min_rh c \<noteq> None \<or> max_rh c \<noteq> None
          then (let loh = (if min_rh c \<noteq> None then bn_num env (min_rh c) else DASH);
                    hih = (if max_rh c \<noteq> None then bn_num env (max_rh c) else DASH)
                in [RH_LABEL @ loh @ [0x25, 0x2013] @ hih @ [0x25]])
          else []))"

definition disease_bullet :: "disease_row list \<Rightarrow> pystr list" where
  "disease_bullet diseases =
     (if diseases \<noteq> []
      then [DISEASE_LABEL @ join (py '' / '')
              (map (\<lambda>d. if truthy (disease_name_bn d) then coalesce (disease_name_bn d) []
                         else coalesce (disease_name_en d) [])
                 (filter (\<lambda>d. truthy (disease_name_bn d) \<or> truthy (disease_name_en d)) diseases))]
      else [])"

text \<open>The entries of the location bullet: \<open>locs[:5]\<close>, rows without a name skipped.\<close>

definition location_entries :: "location_row list \<Rightarrow> pystr list" where
  "location_entries locs =
     map (\<lambda>r. strip (coalesce (location_name r) [] @ py '' ('' @ bn_season (season r) @ py '')''))
       (filter (\<lambda>r. truthy (location_name r)) (take 5 locs))"

definition location_bullet :: "location_row list \<Rightarrow> pystr list" where
  "location_bullet locs =
     (if locs \<noteq> []
      then (let top = join (py '', '') (location_entries locs)
            in if strip_chars (py '', '') top \<noteq> [] then [LOCATION_LABEL @ top] else [])
      else [])"

definition render_bullets :: "pyenv \<Rightarrow> season_row list \<Rightarrow> location_row list
    \<Rightarrow> climate_row option \<Rightarrow> disease_row list \<Rightarrow> pystr list" where
  "render_bullets env seasons locs clim diseases =
     season_bullet seasons @ temp_bullet env clim @ rh_bullet env clim
     @ disease_bullet diseases @ location_bullet locs"

text \<open>
  The dictionary \<open>graph_answer_for_crop\<close> returns: \<open>{"ok": False, "reason":
  "crop_not_found", "query": text}\<close>, or \<open>{"ok": True, "mode": "GraphRAG", "crop": ...,
  "facts": ..., "bullets_bn": ..., "sources": ...}\<close>.
\<close>

record facts =
  seasons :: "season_row list"
  locations :: "location_row list"
  climate_facts :: "climate_row option"
  diseases :: "disease_row list"

datatype graph_answer =
    CropNotFound pystr
  | GraphRAG crop_ref facts "pystr list"

text \<open>\<open>res.get("ok")\<close> and \<open>res.get("bullets_bn")\<close> (absent: falsy).\<close>

fun ok :: "graph_answer \<Rightarrow> bool" where
  "ok (CropNotFound q) = False"
| "ok (GraphRAG c f bs) = True"

fun bullets_bn :: "graph_answer \<Rightarrow> pystr list" where
  "bullets_bn (CropNotFound q) = []"
| "bullets_bn (GraphRAG c f bs) = bs"

definition graph_answer_for_crop :: "pyenv \<Rightarrow> graph \<Rightarrow> pystr \<Rightarrow> graph_answer eff" where
  "graph_answer_for_crop env g text =
     and_then (resolve_crop env g text) (\<lambda>crop.
       case crop of
         None \<Rightarrow> ret (CropNotFound text)
       | Some c \<Rightarrow>
          and_then (crop_seasons g (cid c)) (\<lambda>seasons.
          and_then (crop_locations g (cid c) 10) (\<lambda>locs.
          and_then (crop_climate g (cid c)) (\<lambda>clim.
          and_then (crop_diseases g (cid c)) (\<lambda>diseases.
            ret (GraphRAG c
                   \<lparr>seasons = seasons, locations = locs, climate_facts = clim,
                     diseases = diseases\<rparr>
                   (render_bullets env seasons locs clim diseases)))))))"

section \<open>rag/retriever\_vector.py: search\<close>

text \<open>
  The vector side's collaborators: the embedding model (\<open>encode\<close>), whether the database
  modules import (\<open>HAS_DB\<close>), whether \<open>psycopg.connect\<close> and \<open>register_vector\<close>
  succeed, and the rows of the k-nearest-neighbour SELECT for a query vector, a limit and the
  source and language filters (or the exception it raises).
\<close>

record 'v vstore =
  encode :: "pystr \<Rightarrow> error + 'v"
  HAS_DB :: bool
  connect_ok :: bool
  execute :: "'v \<Rightarrow> int \<Rightarrow> pystr option \<Rightarrow> pystr option \<Rightarrow> error + hit list"

text \<open>\<open>_conn()\<close>: \<open>None\<close> (here \<open>False\<close>) without the modules or when connecting raises.\<close>

definition conn :: "'v vstore \<Rightarrow> bool eff" where
  "conn vs = (if \<not> HAS_DB vs then ret False else ([PgConnect], Inr (connect_ok vs)))"

definition embed_query :: "'v vstore \<Rightarrow> pystr \<Rightarrow> 'v eff" where
  "embed_query vs q = ([Encode (py ''query: '' @ q)], encode vs (py ''query: '' @ q))"

definition fetch_knn :: "'v vstore \<Rightarrow> 'v \<Rightarrow> int \<Rightarrow> pystr option \<Rightarrow> pystr option
    \<Rightarrow> hit list eff" where
  "fetch_knn vs qvec fetch_k src lang =
     and_then (conn vs) (\<lambda>c.
       if \<not> c then ret []
       else
         (let src' = (if truthy src then src else None);
              lang' = (if truthy lang then lang else None)
          in ([PgQuery fetch_k src' lang'], execute vs qvec fetch_k src' lang')))"

text \<open>\<open>raw[:k]\<close>: a negative \<open>k\<close> counts from the end.\<close>

definition slice_to :: "'a list \<Rightarrow> int \<Rightarrow> 'a list" where
  "slice_to xs k = (if k < 0 then take (length xs - nat (- k)) xs else take (nat k) xs)"

definition search :: "'v vstore \<Rightarrow> pystr \<Rightarrow> int \<Rightarrow> int \<Rightarrow> pystr option \<Rightarrow> pystr option
    \<Rightarrow> bool \<Rightarrow> real \<Rightarrow> hit list eff" where
  "search vs query k fetch_k src lang use_mmr lambda_mult =
     and_then (embed_query vs query) (\<lambda>qvec.
       and_then (fetch_knn vs qvec fetch_k src lang) (\<lambda>raw.
         if use_mmr
         then (case mmr_rerank qvec raw lambda_mult k of Inl e \<Rightarrow> raise e | Inr r \<Rightarrow> ret r)
         else ret (slice_to raw k)))"

section \<open>rag/generator.py and rag/prompts\<close>

text \<open>
  The generation side: \<open>vec_user question passages\<close> is
  \<open>prompts.VEC_USER.format(question=..., passages=...)\<close>, \<open>vec_sys\<close> is \<open>prompts.VEC_SYS\<close>
  (the module \<open>rag/prompts\<close> is not among the sources), and \<open>gen\<close> is \<open>_gen(prompt)\<close>, the
  text-generation pipeline.
\<close>

record llm =
  vec_user :: "pystr \<Rightarrow> pystr \<Rightarrow> pystr"
  vec_sys :: pystr
  gen :: "pystr \<Rightarrow> error + pystr"

definition gen_from_passages :: "llm \<Rightarrow> pystr \<Rightarrow> pystr \<Rightarrow> pystr \<Rightarrow> pystr eff" where
  "gen_from_passages l question passages_block sys_prompt =
     (let prompt = sys_prompt @ [10, 10] @ passages_block
      in ([Generate prompt], gen l prompt))"

section \<open>rag/router.py: the router\<close>

record passage =
  p_id :: pystr
  p_text :: pystr
  p_source :: pystr

definition format_vector_context :: "llm \<Rightarrow> pystr \<Rightarrow> passage list \<Rightarrow> pystr" where
  "format_vector_context l question passages =
     (if passages = [] then []
      else
        (let lines = map (\<lambda>(i, p). py ''['' @ nat_str i @ py ''] '' @ p_text p @ [10]
                                     @ py ''(Source: '' @ p_source p @ py '')'')
                       (enumerate 1 passages);
             block = join [10, 10] lines
         in vec_user l question block))"

definition as_bullets :: "pystr list \<Rightarrow> pystr" where
  "as_bullets bn_lines =
     join [10] (map (\<lambda>b. [0x2022, 0x20] @ b) (filter (\<lambda>b. b \<noteq> [] \<and> strip b \<noteq> []) bn_lines))"

text \<open>The per-intent augmentation, \<open>{...}.get(intent or "", "")\<close>.\<close>

definition AUG :: "intent option \<Rightarrow> pystr" where
  "AUG i =
     (case i of
        Some Disease \<Rightarrow>
          [0x20, 0x9B0, 0x9CB, 0x997]
          @ [0x20, 0x9AA, 0x9CB, 0x995, 0x9BE]
          @ [0x20, 0x995, 0x9C0, 0x99F]
          @ py '' disease''
          @ py '' pest''
      | Some Climate \<Rightarrow>
          [0x20, 0x99C, 0x9B2, 0x9AC, 0x9BE, 0x9AF, 0x9BC, 0x9C1]
          @ [0x20, 0x9A4, 0x9BE, 0x9AA, 0x9AE, 0x9BE, 0x9A4, 0x9CD, 0x9B0, 0x9BE]
          @ [0x20, 0x986, 0x9B0, 0x9CD, 0x9A6, 0x9CD, 0x9B0, 0x9A4, 0x9BE]
          @ py '' climate''
          @ py '' temperature''
          @ py '' humidity''
      | Some Season \<Rightarrow>
          [0x20, 0x9AE, 0x9CC, 0x9B8, 0x9C1, 0x9AE]
          @ py '' season''
          @ py '' transplant''
          @ py '' harvest''
          @ [0x20, 0x995, 0x9BE, 0x99F, 0x9BE]
          @ [0x20, 0x9B0, 0x9CB, 0x9AA, 0x9A3]
      | Some Fertilizer \<Rightarrow>
          [0x20, 0x9B8, 0x9BE, 0x9B0]
          @ py '' fertilizer''
          @ py '' NPK''
          @ [0x20, 0x9A1, 0x9CB, 0x99C]
          @ [0x20, 0x9AE, 0x9BE, 0x9A4, 0x9CD, 0x9B0, 0x9BE]
      | None \<Rightarrow> [])"

text \<open>The fixed apology.\<close>

definition APOLOGY :: pystr where
  "APOLOGY =
     [0x9AE, 0x9BE, 0x9AB, 0x20,
      0x995, 0x9B0, 0x9AC, 0x9C7, 0x9A8, 0x2C, 0x20,
      0x986, 0x9AE, 0x9BE, 0x9B0, 0x20,
      0x995, 0x9BE, 0x99B, 0x9C7, 0x20,
      0x9B8, 0x9C7, 0x987, 0x20,
      0x9A4, 0x9A5, 0x9CD, 0x9AF, 0x20,
      0x9A8, 0x9C7, 0x987, 0x964]"

record 'v world =
  runtime :: pyenv
  graph_db :: graph
  vector_db :: "'v vstore"
  generator :: llm

text \<open>
  What a disease retriever returns, as far as the router reads it: \<open>res.get("ok")\<close> and
  \<open>res.get("bullets_bn")\<close>.
\<close>

type_synonym disease_fn = "pystr \<Rightarrow> (bool \<times> pystr list) eff"

text \<open>
  Part 1 of \<open>answer\<close>, the graph paths: \<open>Some\<close> of the text the router returns from them, or
  \<open>None\<close> when it falls through. \<open>gd\<close> is the module-level binding
  \<open>graph_diseases_for_crop\<close>; \<open>callable(None)\<close> is false.
\<close>

definition graph_paths :: "disease_fn option \<Rightarrow> pyenv \<Rightarrow> graph \<Rightarrow> intent option \<Rightarrow> pystr
    \<Rightarrow> crop_ref option \<Rightarrow> pystr option eff" where
  "graph_paths gd env g intent question crop =
     (case crop of
        None \<Rightarrow> ret None
      | Some c \<Rightarrow>
         and_then
           (case gd of
              None \<Rightarrow> ret None
            | Some f \<Rightarrow>
               (if intent = Some Disease
                then and_then (f question) (\<lambda>(res_ok, res_bullets).
                       ret (if res_ok \<and> res_bullets \<noteq> [] then Some (as_bullets res_bullets)
                            else None))
                else ret None))
           (\<lambda>a. case a of
                  Some out \<Rightarrow> ret (Some out)
                | None \<Rightarrow>
                   and_then (graph_answer_for_crop env g question) (\<lambda>res.
                     ret (if ok res \<and> bullets_bn res \<noteq> [] then Some (as_bullets (bullets_bn res))
                          else None))))"

text \<open>Part 2 of \<open>answer\<close>, the vector fallback.\<close>

definition vector_fallback :: "'v world \<Rightarrow> intent option \<Rightarrow> pystr \<Rightarrow> int \<Rightarrow> pystr eff" where
  "vector_fallback w intent question k =
     (let q2 = strip (question @ [32] @ AUG intent)
      in and_then (search (vector_db w) q2 k (max 32 (k * 8)) None (Some (py ''bn'')) True (7/10))
           (\<lambda>hits.
             (let passages = map (\<lambda>h. \<lparr>p_id = chunk_id h, p_text = hit_text h,
                                         p_source = source h\<rparr>) hits
              in if passages = [] then ret APOLOGY
                 else
                   (let user_prompt = format_vector_context (generator w) question passages
                    in gen_from_passages (generator w) question user_prompt
                         (vec_sys (generator w))))))"

definition answer_with :: "disease_fn option \<Rightarrow> 'v world \<Rightarrow> pystr \<Rightarrow> int \<Rightarrow> pystr eff" where
  "answer_with gd w question k =
     (let intent = detect_intent (runtime w) question
      in and_then (resolve_crop (runtime w) (graph_db w) question) (\<lambda>crop.
           and_then (graph_paths gd (runtime w) (graph_db w) intent question crop) (\<lambda>a.
             case a of
               Some out \<Rightarrow> ret out
             | None \<Rightarrow> vector_fallback w intent question k)))"

text \<open>
  The names \<open>rag/retriever_graph.py\<close> binds at module level (imports, constants, functions).
  \<open>from rag.retriever_graph import name\<close> raises ImportError for any other name.
\<close>

definition retriever_graph_names :: "string list" where
  "retriever_graph_names =
     [''annotations'', ''List'', ''Dict'', ''Any'', ''Optional'', ''GraphDatabase'', ''os'',
      ''unicodedata'', ''re'', ''json'', ''argparse'', ''atexit'',
      ''NEO4J_URI'', ''NEO4J_USER'', ''NEO4J_PASS'', ''_driver'', ''_run'', ''_MANUAL_ALIASES'',
      ''_normalize_bn'', ''_BN_DIGITS'', ''_bn_num'', ''_SEASON_MAP'', ''_bn_season'',
      ''resolve_crop'', ''crop_seasons'', ''crop_locations'', ''crop_climate'', ''crop_diseases'',
      ''graph_answer_for_crop'', ''__all__'']"

text \<open>
  \<open>try: from rag.retriever_graph import graph_diseases_for_crop\<close>
  \<open>except Exception: graph_diseases_for_crop = None\<close>.
  \<open>impl\<close> stands for the function the module would bind the name to, if it bound it.
\<close>

definition import_or_none :: "string list \<Rightarrow> string \<Rightarrow> 'f \<Rightarrow> 'f option" where
  "import_or_none names name impl = (if name \<in> set names then Some impl else None)"

definition graph_diseases_for_crop :: "disease_fn \<Rightarrow> disease_fn option" where
  "graph_diseases_for_crop impl =
     import_or_none retriever_graph_names ''graph_diseases_for_crop'' impl"

text \<open>\<open>answer(question, k)\<close>\<close>

definition answer :: "disease_fn \<Rightarrow> 'v world \<Rightarrow> pystr \<Rightarrow> int \<Rightarrow> pystr eff" where
  "answer impl w question k = answer_with (graph_diseases_for_crop impl) w question k"

text \<open>
  The router with the disease branch removed: resolve; if resolved, the general fact
  bundle's bullets when non-empty; otherwise the vector fallback.
\<close>

definition answer_without_disease_branch :: "'v world \<Rightarrow> pystr \<Rightarrow> int \<Rightarrow> pystr eff" where
  "answer_without_disease_branch w question k =
     (let intent = detect_intent (runtime w) question
      in and_then (resolve_crop (runtime w) (graph_db w) question) (\<lambda>crop.
           and_then
             (case crop of
                None \<Rightarrow> ret None
              | Some c \<Rightarrow>
                 and_then (graph_answer_for_crop (runtime w) (graph_db w) question) (\<lambda>res.
                   ret (if ok res \<and> bullets_bn res \<noteq> [] then Some (as_bullets (bullets_bn res))
                        else None)))
             (\<lambda>a. case a of
                    Some out \<Rightarrow> ret out
                  | None \<Rightarrow> vector_fallback w intent question k)))"

section \<open>The tiers of crop resolution, in the specification's words\<close>

text \<open>
  An ordered list of resolution strategies, each with the query it sends and the rows it
  finds: exact match, alias match, full-text match, substring match, then the substring
  match retried with the mapped term of every manual alias whose key occurs in the query.
\<close>

definition tiers :: "pyenv \<Rightarrow> graph \<Rightarrow> pystr \<Rightarrow> (cypher \<times> crop_ref list) list" where
  "tiers env g q =
     [(CyExact q, cy_exact g q), (CyAlias q, cy_alias g q), (CyFt q, cy_ft g q),
      (CyContains q, cy_contains g q)]
     @ map (\<lambda>(key, targets). (CyContains (hd targets), cy_contains g (hd targets)))
         (filter (\<lambda>(key, targets). contains q (normalize_bn env key)) MANUAL_ALIASES)"

text \<open>Tried in sequence: the first tier with a row wins, and later tiers are not tried.\<close>

fun first_hit :: "(cypher \<times> crop_ref list) list \<Rightarrow> crop_ref option" where
  "first_hit [] = None"
| "first_hit ((c, rows) # rest) = (if rows \<noteq> [] then Some (hd rows) else first_hit rest)"

fun tried :: "(cypher \<times> crop_ref list) list \<Rightarrow> cypher list" where
  "tried [] = []"
| "tried ((c, rows) # rest) = (if rows \<noteq> [] then [c] else c # tried rest)"

section \<open>A small graph, vector store and generator for concrete runs\<close>

definition aman :: crop_node where
  "aman =
     \<lparr>cid = Some (py ''aman''), name_bn = Some [0x986, 0x9AE, 0x9A8],
      name_en = Some (py ''Aman''), slug = None,
      climate = \<lparr>min_temp_c = Some (PyInt 20), max_temp_c = None, min_rh = None,
                  max_rh = None\<rparr>,
      suitable_in = [\<lparr>season_id = Some (py ''k2''), season_name = Some (py ''Kharif 2'')\<rparr>],
      cultivated_in =
        [\<lparr>location_id = Some (py ''d1''), location_name = Some (py ''Bogura''),
          season = Some (py ''Aman''), transplant = None, harvest = None,
          production = Some 5, avg_temp_c = None, avg_humidity = None\<rparr>,
         \<lparr>location_id = Some (py ''d2''), location_name = Some (py ''Dinajpur''),
          season = None, transplant = None, harvest = None,
          production = None, avg_temp_c = None, avg_humidity = None\<rparr>,
         \<lparr>location_id = Some (py ''d3''), location_name = Some (py ''Rangpur''),
          season = Some (py ''Rabi''), transplant = None, harvest = None,
          production = Some 9, avg_temp_c = None, avg_humidity = None\<rparr>,
         \<lparr>location_id = Some (py ''d4''), location_name = Some (py ''Pabna''),
          season = Some (py ''Kharif 1''), transplant = None, harvest = None,
          production = None, avg_temp_c = None, avg_humidity = None\<rparr>],
      suffer_from = []\<rparr>"

text \<open>The locations of \<open>aman\<close> by descending production, and the facts fetched for it.\<close>

definition aman_top :: "location_row list" where
  "aman_top = [cultivated_in aman ! 2, cultivated_in aman ! 0, cultivated_in aman ! 1,
               cultivated_in aman ! 3]"

definition aman_facts :: facts where
  "aman_facts = \<lparr>seasons = suitable_in aman, locations = aman_top,
                  climate_facts = Some (climate aman), diseases = []\<rparr>"

definition aman_trace :: "call list" where
  "aman_trace =
     [GraphQuery (CyExact (py ''Aman'')), GraphQuery (CySeasons (Some (py ''aman''))),
      GraphQuery (CyLocations (Some (py ''aman'')) 10),
      GraphQuery (CyClimate (Some (py ''aman''))),
      GraphQuery (CyDiseases (Some (py ''aman'')))]"

definition jute :: crop_node where
  "jute =
     \<lparr>cid = Some (py ''jute''), name_bn = None, name_en = Some (py ''Jute''), slug = None,
      climate = \<lparr>min_temp_c = None, max_temp_c = None, min_rh = None, max_rh = None\<rparr>,
      suitable_in = [], cultivated_in = [], suffer_from = []\<rparr>"

definition demo_graph :: graph where
  "demo_graph =
     \<lparr>crops = [aman, jute],
      aliases = [\<lparr>alias_name = Some (py ''paddy''), alias_of = [aman]\<rparr>],
      fulltext = (\<lambda>q. if q = py ''rice'' then [(jute, 1/2), (aman, 2)] else []),
      to_lower = ascii_lower, str_le = (\<lambda>a b. True),
      fails = (\<lambda>c. False)\<rparr>"

definition demo_vstore :: "unit vstore" where
  "demo_vstore =
     \<lparr>encode = (\<lambda>q. Inr ()), HAS_DB = True, connect_ok = False,
      execute = (\<lambda>qvec k src lang. Inr [])\<rparr>"

definition demo_llm :: llm where
  "demo_llm = \<lparr>vec_user = (\<lambda>question passages. question @ [10] @ passages), vec_sys = [],
                gen = (\<lambda>prompt. Inr prompt)\<rparr>"

definition demo_world :: "unit world" where
  "demo_world = \<lparr>runtime = ascii_env, graph_db = demo_graph, vector_db = demo_vstore,
                  generator = demo_llm\<rparr>"

text \<open>The same world with the graph store down, and with a vector query that raises.\<close>

definition graph_down_world :: "unit world" where
  "graph_down_world = demo_world\<lparr>graph_db := demo_graph\<lparr>fails := (\<lambda>c. True)\<rparr>\<rparr>"

definition vector_failing_world :: "unit world" where
  "vector_failing_world =
     demo_world\<lparr>vector_db := demo_vstore\<lparr>connect_ok := True,
                    execute := (\<lambda>qvec k src lang. Inl StoreError)\<rparr>\<rparr>"

text \<open>The graph with only the alias query raising, and with only the full-text query raising.\<close>

definition alias_failing_graph :: graph where
  "alias_failing_graph =
     demo_graph\<lparr>fails := (\<lambda>c. case c of CyAlias q \<Rightarrow> True | _ \<Rightarrow> False)\<rparr>"

definition fulltext_failing_graph :: graph where
  "fulltext_failing_graph =
     demo_graph\<lparr>fails := (\<lambda>c. case c of CyFt q \<Rightarrow> True | _ \<Rightarrow> False)\<rparr>"

text \<open>
  A crop cultivated in twelve districts, four of them without a production volume, and the
  graph that holds it; the ten rows by descending production, nulls last in store order.
\<close>

definition loc_row :: "string \<Rightarrow> string option \<Rightarrow> int option \<Rightarrow> location_row" where
  "loc_row name seas vol =
     \<lparr>location_id = None, location_name = Some (py name), season = map_option py seas,
      transplant = None, harvest = None, production = vol, avg_temp_c = None,
      avg_humidity = None\<rparr>"

definition boro :: crop_node where
  "boro =
     \<lparr>cid = Some (py ''boro''), name_bn = Some [0x9AC, 0x9CB, 0x9B0, 0x9CB],
      name_en = Some (py ''Boro''), slug = None,
      climate = \<lparr>min_temp_c = None, max_temp_c = None, min_rh = None, max_rh = None\<rparr>,
      suitable_in = [],
      cultivated_in =
        [loc_row ''Bogura'' (Some ''Boro'') (Some 30),
         loc_row ''Cumilla'' None None,
         loc_row ''Dinajpur'' (Some ''Rabi'') (Some 120),
         loc_row ''Feni'' (Some ''Boro'') (Some 7),
         loc_row ''Jashore'' (Some ''Kharif 1'') (Some 45),
         loc_row ''Khulna'' (Some ''Boro'') None,
         loc_row ''Mymensingh'' (Some ''Boro'') (Some 88),
         loc_row ''Natore'' (Some ''Rabi'') None,
         loc_row ''Pabna'' (Some ''Boro'') (Some 61),
         loc_row ''Rajshahi'' (Some ''Aman'') (Some 19),
         loc_row ''Rangpur'' (Some ''Boro'') (Some 240),
         loc_row ''Sylhet'' (Some ''Kharif 2'') None],
      suffer_from = []\<rparr>"

definition boro_graph :: graph where
  "boro_graph = demo_graph\<lparr>crops := [boro]\<rparr>"

definition boro_top :: "location_row list" where
  "boro_top =
     [loc_row ''Rangpur'' (Some ''Boro'') (Some 240),
      loc_row ''Dinajpur'' (Some ''Rabi'') (Some 120),
      loc_row ''Mymensingh'' (Some ''Boro'') (Some 88),
      loc_row ''Pabna'' (Some ''Boro'') (Some 61),
      loc_row ''Jashore'' (Some ''Kharif 1'') (Some 45),
      loc_row ''Bogura'' (Some ''Boro'') (Some 30),
      loc_row ''Rajshahi'' (Some ''Aman'') (Some 19),
      loc_row ''Feni'' (Some ''Boro'') (Some 7),
      loc_row ''Cumilla'' None None,
      loc_row ''Khulna'' (Some ''Boro'') None]"

text \<open>The five entries the location bullet shows for it.\<close>

definition boro_shown :: "pystr list" where
  "boro_shown =
     [py ''Rangpur ('' @ [0x9AC, 0x9CB, 0x9B0, 0x9CB] @ py '')'',
      py ''Dinajpur ('' @ [0x9B0, 0x9AC, 0x9BF] @ py '')'',
      py ''Mymensingh ('' @ [0x9AC, 0x9CB, 0x9B0, 0x9CB] @ py '')'',
      py ''Pabna ('' @ [0x9AC, 0x9CB, 0x9B0, 0x9CB] @ py '')'',
      py ''Jashore ('' @ [0x996, 0x9B0, 0x9BF, 0x9AB, 0x2D, 0x9E7] @ py '')'']"

definition boro_trace :: "call list" where
  "boro_trace =
     [GraphQuery (CyExact (py ''Boro'')), GraphQuery (CySeasons (Some (py ''boro''))),
      GraphQuery (CyLocations (Some (py ''boro'')) 10),
      GraphQuery (CyClimate (Some (py ''boro''))),
      GraphQuery (CyDiseases (Some (py ''boro'')))]"

definition boro_facts :: facts where
  "boro_facts = \<lparr>seasons = [], locations = boro_top, climate_facts = Some (climate boro),
                  diseases = []\<rparr>"



text \<open>A disease retriever that finds nothing, to stand for the absent function.\<close>

definition no_diseases :: disease_fn where
  "no_diseases question = ret (False, [])"

text \<open>A call of the text-generation collaborator.\<close>

fun generates :: "call \<Rightarrow> bool" where
  "generates (Generate prompt) = True"
| "generates c = False"

definition no_generation :: "call list \<Rightarrow> bool" where
  "no_generation t = (\<not> list_ex generates t)"

section \<open>Properties of the MMR re-ranking\<close>

lemma jaccard_Inr: "\<exists>r. jaccard a b = Inr r"
  by (simp add: jaccard_def Let_def)

lemma jaccard_bounds:
  assumes "finite a" "finite b" "jaccard a b = Inr r"
  shows "0 \<le> r \<and> r \<le> 1"
proof -
  have le: "card (a \<inter> b) \<le> card (a \<union> b)"
    using assms(1,2) by (intro card_mono) auto
  show ?thesis
  proof (cases "card (a \<union> b) = 0")
    case True
    with le assms(3) show ?thesis by (simp add: jaccard_def)
  next
    case False
    with le assms(3) show ?thesis by (auto simp: jaccard_def Let_def divide_le_eq)
  qed
qed

lemma collect_Inr:
  "\<forall>r \<in> set rs. \<exists>x. r = Inr x \<and> P x \<Longrightarrow> \<exists>xs. collect rs = Inr xs \<and> (\<forall>x \<in> set xs. P x)"
proof (induction rs)
  case Nil
  then show ?case by simp
next
  case (Cons r rs)
  then obtain x where x: "r = Inr x" "P x" by auto
  from Cons obtain xs where xs: "collect rs = Inr xs" "\<forall>x \<in> set xs. P x" by auto
  show ?case using x xs by simp
qed

lemma max_default_bounds:
  assumes "\<forall>x \<in> set xs. 0 \<le> x \<and> x \<le> 1"
  shows "0 \<le> max_default xs \<and> max_default xs \<le> 1"
proof (cases xs)
  case Nil
  then show ?thesis by simp
next
  case (Cons y ys)
  have "max_default xs = Max (set (y # ys))"
    using Cons by (simp only: max_default.simps Max.set_eq_fold)
  moreover have "Max (set (y # ys)) \<in> set (y # ys)"
    by (rule Max_in) auto
  ultimately show ?thesis using assms Cons by auto
qed

lemma redundancy_ok:
  assumes "j < length toks" "\<forall>si \<in> set idx. si < length toks" "\<forall>t \<in> set toks. finite t"
  shows "\<exists>red. redundancy toks j idx = Inr red \<and> 0 \<le> red \<and> red \<le> 1"
proof -
  let ?f = "\<lambda>si. case getitem toks j of Inl e \<Rightarrow> Inl e
              | Inr a \<Rightarrow> (case getitem toks si of Inl e \<Rightarrow> Inl e | Inr b \<Rightarrow> jaccard a b)"
  have "\<forall>r \<in> set (map ?f idx). \<exists>x. r = Inr x \<and> (0 \<le> x \<and> x \<le> 1)"
  proof
    fix r assume "r \<in> set (map ?f idx)"
    then obtain si where si: "si \<in> set idx" "r = ?f si" by auto
    then have r: "r = jaccard (toks ! j) (toks ! si)"
      using assms(1,2) by (simp add: getitem_def)
    obtain x where x: "jaccard (toks ! j) (toks ! si) = Inr x"
      using jaccard_Inr by blast
    have "finite (toks ! j)" "finite (toks ! si)"
      using assms si by auto
    then have "0 \<le> x \<and> x \<le> 1" using jaccard_bounds x by blast
    then show "\<exists>x. r = Inr x \<and> (0 \<le> x \<and> x \<le> 1)" using r x by simp
  qed
  then obtain js where js: "collect (map ?f idx) = Inr js" "\<forall>x \<in> set js. 0 \<le> x \<and> x \<le> 1"
    using collect_Inr [of "map ?f idx" "\<lambda>x. 0 \<le> x \<and> x \<le> 1"] by blast
  then show ?thesis
    using max_default_bounds [of js] by (simp add: redundancy_def)
qed

lemma scan_Some:
  assumes "\<forall>j \<in> fst ` set rest. j < length toks" "\<forall>si \<in> set idx. si < length toks"
    "\<forall>t \<in> set toks. finite t"
  shows "\<exists>b' s'. scan l toks idx rest (Some b, s) = Inr (Some b', s') \<and> s \<le> s'
           \<and> (b' = b \<or> (b' \<in> fst ` set rest \<and> b' \<notin> set idx))"
  using assms(1)
proof (induction rest arbitrary: b s)
  case Nil
  then show ?case by simp
next
  case (Cons p rest)
  obtain j h where p: "p = (j, h)" by (cases p)
  have j: "j < length toks" using Cons.prems p by simp
  have rest: "\<forall>j \<in> fst ` set rest. j < length toks" using Cons.prems by simp
  obtain red where red: "redundancy toks j idx = Inr red"
    using redundancy_ok [OF j assms(2,3)] by blast
  show ?case
  proof (cases "j \<in> set idx")
    case True
    then show ?thesis using Cons.IH [OF rest, of b s] p by auto
  next
    case False
    show ?thesis
    proof (cases "l * cosine_sim h - (1 - l) * red > s")
      case True
      let ?sc = "l * cosine_sim h - (1 - l) * red"
      obtain b' s' where r: "scan l toks idx rest (Some j, ?sc) = Inr (Some b', s')" "?sc \<le> s'"
          "b' = j \<or> (b' \<in> fst ` set rest \<and> b' \<notin> set idx)"
        using Cons.IH [OF rest, of j ?sc] by blast
      have "scan l toks idx (p # rest) (Some b, s) = Inr (Some b', s')"
        using r(1) p red False True by (simp add: Let_def)
      moreover have "s \<le> s'" using r(2) True by simp
      moreover have "b' \<in> fst ` set (p # rest) \<and> b' \<notin> set idx"
        using r(3) p False by auto
      ultimately show ?thesis by blast
    next
      case F: False
      then show ?thesis
        using Cons.IH [OF rest, of b s] p red False
        by (auto simp: Let_def)
    qed
  qed
qed

lemma score_above:
  fixes l rel red s0 :: real
  assumes "0 \<le> l" "l \<le> 1" "- 1 \<le> rel" "0 \<le> red" "red \<le> 1" "s0 < - 1"
  shows "s0 < l * rel - (1 - l) * red"
proof -
  have "- l \<le> l * rel"
    using mult_left_mono [of "- 1" rel l] assms(1,3) by simp
  moreover have "(1 - l) * red \<le> 1 - l"
    using mult_left_mono [of red 1 "1 - l"] assms(2,5) by simp
  ultimately show ?thesis using assms(6) by linarith
qed

lemma scan_None:
  assumes "\<forall>j \<in> fst ` set rest. j < length toks" "\<forall>si \<in> set idx. si < length toks"
    "\<forall>t \<in> set toks. finite t" "0 \<le> l" "l \<le> 1" "\<forall>h \<in> snd ` set rest. - 1 \<le> cosine_sim h"
    "s0 < - 1" "\<exists>j \<in> fst ` set rest. j \<notin> set idx"
  shows "\<exists>j s. scan l toks idx rest (None, s0) = Inr (Some j, s) \<and> s0 < s
           \<and> j \<in> fst ` set rest \<and> j \<notin> set idx"
  using assms(1,6,8)
proof (induction rest)
  case Nil
  then show ?case by simp
next
  case (Cons p rest)
  obtain j h where p: "p = (j, h)" by (cases p)
  have j: "j < length toks" using Cons.prems p by simp
  have rest: "\<forall>j \<in> fst ` set rest. j < length toks" using Cons.prems by simp
  obtain red where red: "redundancy toks j idx = Inr red" "0 \<le> red" "red \<le> 1"
    using redundancy_ok [OF j assms(2,3)] by blast
  show ?case
  proof (cases "j \<in> set idx")
    case True
    then have "\<exists>j \<in> fst ` set rest. j \<notin> set idx" using Cons.prems(3) p by auto
    then show ?thesis using Cons.IH [OF rest] Cons.prems(2) p True by auto
  next
    case False
    have "- 1 \<le> cosine_sim h" using Cons.prems(2) p by simp
    then have sc: "s0 < l * cosine_sim h - (1 - l) * red"
      using score_above assms(4,5,7) red by blast
    obtain b' s' where "scan l toks idx rest (Some j, l * cosine_sim h - (1 - l) * red) = Inr (Some b', s')"
      "l * cosine_sim h - (1 - l) * red \<le> s'"
      "b' = j \<or> (b' \<in> fst ` set rest \<and> b' \<notin> set idx)"
      using scan_Some [OF rest assms(2,3)] by blast
    then show ?thesis using p red False sc by (auto simp: Let_def)
  qed
qed

lemma select_loop_stop:
  "\<not> (int (length selected) < top_k \<and> length selected < length hits) \<Longrightarrow>
   select_loop l top_k hits toks selected idx = Inr selected"
  by (subst select_loop.simps) auto

lemma select_loop_step:
  assumes "int (length selected) < top_k" "length selected < length hits"
    "scan l toks idx (enumerate 0 hits) (None, sentinel) = Inr (Some j, s)" "j < length hits"
  shows "select_loop l top_k hits toks selected idx =
         select_loop l top_k hits toks (selected @ [hits ! j]) (idx @ [j])"
  using assms by (subst select_loop.simps) (simp add: getitem_def)

lemma fst_enumerate: "fst ` set (enumerate 0 xs) = {..<length xs}"
  by (simp only: set_map [symmetric] map_fst_enumerate) auto

lemma snd_enumerate: "snd ` set (enumerate 0 xs) = set xs"
  by (simp only: set_map [symmetric] map_snd_enumerate)

lemma free_index:
  assumes "length idx < n"
  shows "\<exists>j < n. j \<notin> set idx"
proof (rule ccontr)
  assume "\<not> (\<exists>j < n. j \<notin> set idx)"
  then have "{..<n} \<subseteq> set idx" by auto
  then have "card {..<n} \<le> card (set idx)" by (intro card_mono) auto
  also have "\<dots> \<le> length idx" by (rule card_length)
  finally show False using assms by simp
qed

lemma scan_picks:
  assumes "well_formed hits" "0 \<le> l" "l \<le> 1" "length toks = length hits"
    "\<forall>t \<in> set toks. finite t" "\<forall>si \<in> set idx. si < length hits" "length idx < length hits"
  shows "\<exists>j s. scan l toks idx (enumerate 0 hits) (None, sentinel) = Inr (Some j, s)
            \<and> sentinel < s \<and> j < length hits \<and> j \<notin> set idx"
proof -
  have a1: "\<forall>j \<in> fst ` set (enumerate 0 hits). j < length toks"
    by (simp add: fst_enumerate assms(4))
  have a2: "\<forall>si \<in> set idx. si < length toks" using assms(4,6) by simp
  have a6: "\<forall>h \<in> snd ` set (enumerate 0 hits). - 1 \<le> cosine_sim h"
    using assms(1) by (simp add: snd_enumerate well_formed_def list_all_iff)
  have a7: "sentinel < - 1" by (simp add: sentinel_def)
  have a8: "\<exists>j \<in> fst ` set (enumerate 0 hits). j \<notin> set idx"
    using free_index [OF assms(7)] by (auto simp: fst_enumerate)
  show ?thesis
    using scan_None [OF a1 a2 assms(5) assms(2,3) a6 a7 a8] by (auto simp: fst_enumerate)
qed

lemma select_loop_total:
  assumes "well_formed hits" "0 \<le> l" "l \<le> 1" "length toks = length hits"
    "\<forall>t \<in> set toks. finite t"
  shows "\<forall>si \<in> set idx. si < length hits \<Longrightarrow> length idx = length selected \<Longrightarrow>
         length selected \<le> length hits \<Longrightarrow>
         \<exists>sel. select_loop l top_k hits toks selected idx = Inr sel
            \<and> length sel = max (length selected) (min (nat top_k) (length hits))"
proof (induction "length hits - length selected" arbitrary: selected idx)
  case 0
  then have "length selected = length hits" by simp
  then show ?case using select_loop_stop [of selected top_k hits l toks idx] by auto
next
  case (Suc n)
  show ?case
  proof (cases "int (length selected) < top_k")
    case False
    then show ?thesis using select_loop_stop [of selected top_k hits l toks idx] by auto
  next
    case True
    have lt: "length selected < length hits" using Suc.hyps(2) by simp
    then have "length idx < length hits" using Suc.prems(2) by simp
    then obtain j s where j: "scan l toks idx (enumerate 0 hits) (None, sentinel) = Inr (Some j, s)"
        "j < length hits" "j \<notin> set idx"
      using scan_picks [OF assms Suc.prems(1)] by blast
    have step: "select_loop l top_k hits toks selected idx =
         select_loop l top_k hits toks (selected @ [hits ! j]) (idx @ [j])"
      using select_loop_step [OF True lt j(1,2)] .
    have "n = length hits - length (selected @ [hits ! j])" using Suc.hyps(2) by simp
    moreover have "\<forall>si \<in> set (idx @ [j]). si < length hits" using Suc.prems(1) j(2) by simp
    moreover have "length (idx @ [j]) = length (selected @ [hits ! j])" using Suc.prems(2) by simp
    moreover have "length (selected @ [hits ! j]) \<le> length hits" using lt by simp
    ultimately obtain sel where sel: "select_loop l top_k hits toks (selected @ [hits ! j]) (idx @ [j]) = Inr sel"
       "length sel = max (length (selected @ [hits ! j])) (min (nat top_k) (length hits))"
      using Suc.hyps(1) by blast
    have "max (length (selected @ [hits ! j])) (min (nat top_k) (length hits))
          = max (length selected) (min (nat top_k) (length hits))"
      using True lt by simp
    then show ?thesis using step sel by simp
  qed
qed

lemma argmax_from_bound: "best_i < i \<Longrightarrow> argmax_from xs i best_i best < i + length xs"
proof (induction xs arbitrary: i best_i best)
  case Nil
  then show ?case by simp
next
  case (Cons x xs)
  then show ?case
    using Cons.IH [of i "Suc i" x] Cons.IH [of best_i "Suc i" best] by auto
qed

lemma argmax_ok: "xs \<noteq> [] \<Longrightarrow> \<exists>i. argmax xs = Inr i \<and> i < length xs"
  using argmax_from_bound [of 0 1] by (cases xs) (auto simp: argmax_def)

lemma mmr_rerank_returns:
  assumes "1 \<le> top_k" "well_formed hits" "0 \<le> lambda_mult" "lambda_mult \<le> 1"
  shows "\<exists>sel. mmr_rerank qvec hits lambda_mult top_k = Inr sel
           \<and> int (length sel) = min top_k (int (length hits))"
proof (cases "int (length hits) \<le> top_k")
  case True
  then show ?thesis by (simp add: mmr_rerank_def)
next
  case False
  let ?toks = "map (\<lambda>h. set (split (hit_text h))) hits"
  have ne: "map cosine_sim hits \<noteq> []" using False assms(1) by auto
  obtain i where i: "argmax (map cosine_sim hits) = Inr i" "i < length hits"
    using argmax_ok [OF ne] by auto
  have "\<exists>sel. select_loop lambda_mult top_k hits ?toks [hits ! i] [i] = Inr sel
          \<and> length sel = max (length [hits ! i]) (min (nat top_k) (length hits))"
    using assms i(2) False by (intro select_loop_total) auto
  then obtain sel where sel: "select_loop lambda_mult top_k hits ?toks [hits ! i] [i] = Inr sel"
     "length sel = max 1 (min (nat top_k) (length hits))" by auto
  have "nat top_k \<le> length hits" "1 \<le> nat top_k" using assms(1) False by linarith+
  then have "length sel = nat top_k" using sel(2) by simp
  then have "int (length sel) = min top_k (int (length hits))" using assms(1) False by simp
  then show ?thesis using sel(1) i False by (simp add: mmr_rerank_def getitem_def)
qed

text \<open>
  Claim C3. \<open>mmr_rerank\<close> returns its input unchanged, in its order, whenever the number of
  candidates is at most \<open>top_k\<close>; and for \<open>top_k \<ge> 1\<close>, candidates whose scores are cosine
  similarities and \<open>lambda_mult\<close> in \<open>[0, 1]\<close>, it returns exactly
  \<open>min(top_k, len(hits))\<close> items.
\<close>

theorem mmr_rerank_length:
  "(int (length hits) \<le> top_k \<longrightarrow> mmr_rerank qvec hits lambda_mult top_k = Inr hits) \<and>
   (1 \<le> top_k \<and> well_formed hits \<and> 0 \<le> lambda_mult \<and> lambda_mult \<le> 1 \<longrightarrow>
      (\<exists>sel. mmr_rerank qvec hits lambda_mult top_k = Inr sel
           \<and> int (length sel) = min top_k (int (length hits))))"
  using mmr_rerank_returns [of top_k hits lambda_mult qvec]
  by (simp add: mmr_rerank_def)

theorem mmr_rerank_length_witness:
  "int (length scenario) \<le> 5 \<and> mmr_rerank () scenario (7/10) 5 = Inr scenario \<and>
   (1::int) \<le> 2 \<and> well_formed scenario \<and> (0::real) \<le> 7/10 \<and> (7/10::real) \<le> 1 \<and>
   (\<exists>sel. mmr_rerank () scenario (7/10) 2 = Inr sel \<and> int (length sel) = min 2 (int (length scenario)))"
proof -
  have wf: "well_formed scenario"
    by (simp add: well_formed_def scenario_def cand_def)
  have len: "int (length scenario) \<le> 5" by (simp add: scenario_def)
  show ?thesis
    using mmr_rerank_length [of scenario 5 "()" "7/10"]
          mmr_rerank_length [of scenario 2 "()" "7/10"] wf len
    by simp
qed

subsection \<open>The end-to-end scenario\<close>

lemma scenario_toks:
  "map (\<lambda>h. set (split (hit_text h))) scenario
     = [{[97], [98], [99]}, {[97], [98], [100]}, {[120], [121], [122]}]"
  by (simp add: scenario_def cand_def py_def split_def is_space_def)

lemma scenario_red1:
  "redundancy [{[97], [98], [99]}, {[97], [98], [100]}, {[120], [121], [122]}] (Suc 0) [0]
     = Inr (1/2)"
  by (simp add: redundancy_def getitem_def jaccard_def card_insert_if)

lemma scenario_red2:
  "redundancy [{[97], [98], [99]}, {[97], [98], [100]}, {[120], [121], [122]}] (Suc (Suc 0)) [0]
     = Inr 0"
  by (simp add: redundancy_def getitem_def jaccard_def card_insert_if)

lemma scenario_scan:
  "scan (7/10) [{[97], [98], [99]}, {[97], [98], [100]}, {[120], [121], [122]}] [0]
     (enumerate 0 scenario) (None, sentinel) = Inr (Some (Suc 0), 89/200)"
  by (simp add: scenario_def scenario_red1 scenario_red2 sentinel_def cand_def)

lemma scenario_argmax: "argmax (map cosine_sim scenario) = Inr 0"
  by (simp add: argmax_def scenario_def cand_def)

lemma scenario_result: "mmr_rerank () scenario (7/10) 2 = Inr [scenario ! 0, scenario ! 1]"
proof -
  let ?T = "[{[97], [98], [99]}, {[97], [98], [100]}, {[120], [121], [122::nat]}]"
  have len: "length scenario = 3" by (simp add: scenario_def)
  have "select_loop (7/10) 2 scenario ?T [scenario ! 0] [0]
        = select_loop (7/10) 2 scenario ?T ([scenario ! 0] @ [scenario ! Suc 0]) ([0] @ [Suc 0])"
    by (rule select_loop_step [OF _ _ scenario_scan]) (simp_all add: len)
  also have "\<dots> = Inr ([scenario ! 0] @ [scenario ! Suc 0])"
    by (rule select_loop_stop) simp
  finally have l1: "select_loop (7/10) 2 scenario ?T [scenario ! 0] [0]
                    = Inr [scenario ! 0, scenario ! 1]" by simp
  show ?thesis
    unfolding mmr_rerank_def scenario_toks Let_def scenario_argmax
    by (simp add: getitem_def len l1)
qed

text \<open>
  Claim C1, as amended. On the scenario with \<open>top_k = 2\<close> and \<open>lambda_mult = 0.7\<close> the seed
  is candidate 1 (index 0). Candidate 2 has redundancy 2/4 with candidate 1 and score
  \<open>0.7 * 0.85 - 0.3 * 0.5 = 0.445\<close>; candidate 3 has redundancy 0 and score \<open>0.7 * 0.5 = 0.35\<close>.
  The second pick is candidate 2 (index 1), and the result is candidates 1 and 2.
\<close>

theorem mmr_scenario_second_pick:
  "argmax (map cosine_sim scenario) = Inr 0 \<and>
   redundancy (map (\<lambda>h. set (split (hit_text h))) scenario) 1 [0] = Inr (1/2) \<and>
   redundancy (map (\<lambda>h. set (split (hit_text h))) scenario) 2 [0] = Inr 0 \<and>
   (7/10) * cosine_sim (scenario ! 1) - (1 - 7/10) * (1/2) = 89/200 \<and>
   (7/10) * cosine_sim (scenario ! 2) - (1 - 7/10) * 0 = 7/20 \<and>
   scan (7/10) (map (\<lambda>h. set (split (hit_text h))) scenario) [0] (enumerate 0 scenario)
     (None, sentinel) = Inr (Some 1, 89/200) \<and>
   mmr_rerank () scenario (7/10) 2 = Inr [scenario ! 0, scenario ! 1]"
proof -
  have "(7/10) * cosine_sim (scenario ! 1) - (1 - 7/10) * (1/2) = 89/200"
       "(7/10) * cosine_sim (scenario ! 2) - (1 - 7/10) * 0 = 7/20"
    by (simp_all add: scenario_def cand_def)
  then show ?thesis
    using scenario_argmax scenario_red1 scenario_red2 scenario_scan scenario_result
    by (simp add: scenario_toks numeral_2_eq_2)
qed

text \<open>
  Claim C1 as stated (the second pick is candidate 3) does not hold: the result is not
  candidates 1 and 3.
\<close>

theorem mmr_scenario_counterexample:
  "mmr_rerank () scenario (7/10) 2 \<noteq> Inr [scenario ! 0, scenario ! 2]"
proof -
  have "scenario ! 1 \<noteq> scenario ! 2"
    by (simp add: scenario_def cand_def py_def)
  then show ?thesis using scenario_result by simp
qed

subsection \<open>Totality\<close>

text \<open>
  Claim C10. \<open>jaccard\<close> never raises (an empty union is replaced by 1, giving 0); and for
  candidates with similarities in \<open>[-1, 1]\<close>, \<open>lambda_mult\<close> in \<open>[0, 1]\<close> and
  \<open>top_k \<ge> 1\<close>, \<open>mmr_rerank\<close> returns a list, and every pass of the inner loop over a proper
  sub-list of selected indices picks an unselected index in range, with a score above the
  sentinel.
\<close>

theorem mmr_rerank_total:
  "(\<exists>r. jaccard a b = Inr r) \<and> jaccard {} {} = Inr 0 \<and>
   (well_formed hits \<and> 0 \<le> lambda_mult \<and> lambda_mult \<le> 1 \<and> 1 \<le> top_k \<longrightarrow>
      (\<exists>sel. mmr_rerank qvec hits lambda_mult top_k = Inr sel) \<and>
      (\<forall>selected_idx.
          (\<forall>si \<in> set selected_idx. si < length hits) \<and> length selected_idx < length hits \<longrightarrow>
          (\<exists>j s. scan lambda_mult (map (\<lambda>h. set (split (hit_text h))) hits) selected_idx
                    (enumerate 0 hits) (None, sentinel) = Inr (Some j, s)
                 \<and> sentinel < s \<and> j < length hits \<and> j \<notin> set selected_idx)))"
proof (intro conjI impI allI)
  show "\<exists>r. jaccard a b = Inr r" by (rule jaccard_Inr)
  show "jaccard {} {} = Inr 0" by (simp add: jaccard_def)
next
  assume a: "well_formed hits \<and> 0 \<le> lambda_mult \<and> lambda_mult \<le> 1 \<and> 1 \<le> top_k"
  then show "\<exists>sel. mmr_rerank qvec hits lambda_mult top_k = Inr sel"
    using mmr_rerank_returns [of top_k hits lambda_mult qvec] by blast
next
  fix selected_idx
  assume a: "well_formed hits \<and> 0 \<le> lambda_mult \<and> lambda_mult \<le> 1 \<and> 1 \<le> top_k"
    and b: "(\<forall>si \<in> set selected_idx. si < length hits) \<and> length selected_idx < length hits"
  show "\<exists>j s. scan lambda_mult (map (\<lambda>h. set (split (hit_text h))) hits) selected_idx
                    (enumerate 0 hits) (None, sentinel) = Inr (Some j, s)
                 \<and> sentinel < s \<and> j < length hits \<and> j \<notin> set selected_idx"
    using a b by (intro scan_picks) auto
qed

theorem mmr_rerank_total_witness:
  "well_formed scenario \<and> (0::real) \<le> 7/10 \<and> (7/10::real) \<le> 1 \<and> (1::int) \<le> 2 \<and>
   (\<exists>sel. mmr_rerank () scenario (7/10) 2 = Inr sel) \<and>
   (0::nat) < length scenario \<and> length [0::nat] < length scenario \<and>
   (\<exists>j s. scan (7/10) (map (\<lambda>h. set (split (hit_text h))) scenario) [0]
             (enumerate 0 scenario) (None, sentinel) = Inr (Some j, s)
          \<and> sentinel < s \<and> j < length scenario \<and> j \<notin> set [0])"
proof -
  have wf: "well_formed scenario"
    by (simp add: well_formed_def scenario_def cand_def)
  have len: "length scenario = 3" by (simp add: scenario_def)
  have t: "(\<exists>sel. mmr_rerank () scenario (7/10) 2 = Inr sel) \<and>
      (\<forall>selected_idx.
          (\<forall>si \<in> set selected_idx. si < length scenario) \<and> length selected_idx < length scenario \<longrightarrow>
          (\<exists>j s. scan (7/10) (map (\<lambda>h. set (split (hit_text h))) scenario) selected_idx
                    (enumerate 0 scenario) (None, sentinel) = Inr (Some j, s)
                 \<and> sentinel < s \<and> j < length scenario \<and> j \<notin> set selected_idx))"
    using mmr_rerank_total [where hits = scenario and lambda_mult = "7/10" and top_k = 2
        and qvec = "()" and a = "{}" and b = "{}"] wf
    by simp
  from t have "\<exists>j s. scan (7/10) (map (\<lambda>h. set (split (hit_text h))) scenario) [0]
             (enumerate 0 scenario) (None, sentinel) = Inr (Some j, s)
          \<and> sentinel < s \<and> j < length scenario \<and> j \<notin> set [0]"
    using len by (elim conjE allE [of _ "[0]"]) simp
  with t wf len show ?thesis by simp
qed

section \<open>Properties of the intent classifier\<close>

lemma detect_intent_examples:
  "detect_intent ascii_env (py ''Temperature and BLAST at harvest season'') = Some Disease"
  "detect_intent ascii_env (py ''Soil NPK in the harvest SEASON'') = Some Season"
  "detect_intent ascii_env (py ''hello'') = None"
  by (simp_all add: detect_intent_def ascii_env_def ascii_lower_def py_def has_def
      DISEASE_def CLIMATE_def SEASON_def FERT_def)

text \<open>
  Claim C5. \<open>_detect_intent\<close> is total with exactly five outcomes; it is the first-match-wins
  evaluation of the four keyword lists, in the order disease, climate, season, fertilizer, by
  substring containment in the lower-cased question; a later category is returned only when
  no earlier list matches, and \<open>None\<close> exactly when no list matches. Concretely, a question
  with upper-case climate, disease and season keywords is classified as disease.
\<close>

theorem detect_intent_total:
  "detect_intent env q \<in> {Some Disease, Some Climate, Some Season, Some Fertilizer, None} \<and>
   detect_intent env q = classify_spec (str_lower env q) \<and>
   (detect_intent env q = Some Disease) = has (str_lower env q) DISEASE \<and>
   (detect_intent env q = Some Climate) =
      (\<not> has (str_lower env q) DISEASE \<and> has (str_lower env q) CLIMATE) \<and>
   (detect_intent env q = Some Season) =
      (\<not> has (str_lower env q) DISEASE \<and> \<not> has (str_lower env q) CLIMATE
       \<and> has (str_lower env q) SEASON) \<and>
   (detect_intent env q = Some Fertilizer) =
      (\<not> has (str_lower env q) DISEASE \<and> \<not> has (str_lower env q) CLIMATE
       \<and> \<not> has (str_lower env q) SEASON \<and> has (str_lower env q) FERT) \<and>
   (detect_intent env q = None) =
      (\<not> has (str_lower env q) DISEASE \<and> \<not> has (str_lower env q) CLIMATE
       \<and> \<not> has (str_lower env q) SEASON \<and> \<not> has (str_lower env q) FERT) \<and>
   detect_intent ascii_env (py ''Temperature and BLAST at harvest season'') = Some Disease \<and>
   detect_intent ascii_env (py ''Soil NPK in the harvest SEASON'') = Some Season \<and>
   detect_intent ascii_env (py ''hello'') = None"
  using detect_intent_examples
  by (simp add: detect_intent_def classify_spec_def intent_table_def Let_def)

section \<open>Properties of the router and the fact aggregator\<close>

lemma and_then_ret [simp]: "and_then (ret x) f = f x"
  by (simp add: and_then_def ret_def split: prod.splits)

lemma and_then_Inr: "m = (t, Inr x) \<Longrightarrow> and_then m f = (t @ fst (f x), snd (f x))"
  by (simp add: and_then_def split: prod.splits)

lemma and_then_Inl: "m = (t, Inl e) \<Longrightarrow> and_then m f = (t, Inl e)"
  by (simp add: and_then_def)

lemma and_then_result:
  "and_then m f = (t, Inr y) \<Longrightarrow>
   \<exists>t1 x t2. m = (t1, Inr x) \<and> f x = (t2, Inr y) \<and> t = t1 @ t2"
  by (auto simp: and_then_def split: prod.splits sum.splits)

lemma import_fails: "graph_diseases_for_crop impl = None"
  by (simp add: graph_diseases_for_crop_def import_or_none_def retriever_graph_names_def)

text \<open>
  Claim C9. The optional import of \<open>graph_diseases_for_crop\<close> fails, because
  \<open>rag/retriever_graph.py\<close> binds no such name; the binding is \<open>None\<close> whatever a
  disease retriever would be, and \<open>answer\<close> is equal, in calls made and in result, to the
  router with the disease branch removed.
\<close>

theorem disease_branch_unreachable:
  "graph_diseases_for_crop impl = None \<and>
   answer impl w question k = answer_with None w question k \<and>
   answer impl w question k = answer_without_disease_branch w question k"
proof -
  have "answer_with None w question k = answer_without_disease_branch w question k"
    unfolding answer_with_def answer_without_disease_branch_def graph_paths_def
    by (simp cong: option.case_cong)
  then show ?thesis using import_fails [of impl] by (simp add: answer_def)
qed

subsection \<open>What the aggregator fetched and rendered\<close>

lemma run_result: "run g c rows = (t, Inr x) \<Longrightarrow> x = rows \<and> t = [GraphQuery c]"
  by (auto simp: run_def split: if_splits)

lemma graph_answer_facts:
  assumes "graph_answer_for_crop env g q = (t, Inr (GraphRAG c f bs))"
  shows "seasons f = cy_seasons g (cid c) \<and>
         locations f = cy_locations g (cid c) 10 \<and>
         climate_facts f = (case cy_climate g (cid c) of [] \<Rightarrow> None | r # rs \<Rightarrow> Some r) \<and>
         bs = render_bullets env (seasons f) (locations f) (climate_facts f) (diseases f)"
proof -
  from assms obtain t1 crop t2 where
    r: "resolve_crop env g q = (t1, Inr crop)" and
    k: "(case crop of None \<Rightarrow> ret (CropNotFound q)
         | Some c \<Rightarrow>
            and_then (crop_seasons g (cid c)) (\<lambda>seasons.
            and_then (crop_locations g (cid c) 10) (\<lambda>locs.
            and_then (crop_climate g (cid c)) (\<lambda>clim.
            and_then (crop_diseases g (cid c)) (\<lambda>diseases.
              ret (GraphRAG c
                     \<lparr>seasons = seasons, locations = locs, climate_facts = clim,
                       diseases = diseases\<rparr>
                     (render_bullets env seasons locs clim diseases))))))) = (t2, Inr (GraphRAG c f bs))"
    unfolding graph_answer_for_crop_def by (blast dest: and_then_result)
  from k obtain c' where crop: "crop = Some c'"
    by (cases crop) (auto simp: ret_def)
  from k crop obtain ta ss tc ls te cl tg ds where
    s: "crop_seasons g (cid c') = (ta, Inr ss)" and
    l: "crop_locations g (cid c') 10 = (tc, Inr ls)" and
    c: "crop_climate g (cid c') = (te, Inr cl)" and
    d: "crop_diseases g (cid c') = (tg, Inr ds)" and
    fin: "GraphRAG c'
            \<lparr>seasons = ss, locations = ls, climate_facts = cl, diseases = ds\<rparr>
            (render_bullets env ss ls cl ds) = GraphRAG c f bs"
    by (auto dest!: and_then_result simp: ret_def)
  have ss: "ss = cy_seasons g (cid c')"
    using s by (auto simp: crop_seasons_def dest: run_result)
  have ls: "ls = cy_locations g (cid c') 10"
    using l by (auto simp: crop_locations_def dest: run_result)
  have cl: "cl = (case cy_climate g (cid c') of [] \<Rightarrow> None | r # rs \<Rightarrow> Some r)"
    using c by (auto simp: crop_climate_def ret_def dest!: and_then_result run_result split: list.splits)
  show ?thesis using fin ss ls cl by auto
qed

subsection \<open>The temperature bullet\<close>

lemma starts_with_append [simp]: "starts_with (p @ s) p"
  by (induction p) auto

lemma temp_bullet_iff:
  "(temp_bullet env clim \<noteq> []) =
      (\<exists>c. clim = Some c \<and> (min_temp_c c \<noteq> None \<or> max_temp_c c \<noteq> None))"
  by (auto simp: temp_bullet_def Let_def split: option.splits)

lemma render_has_temp_bullet:
  "list_ex (\<lambda>b. starts_with b TEMP_LABEL) (render_bullets env ss locs clim ds) =
      (\<exists>c. clim = Some c \<and> (min_temp_c c \<noteq> None \<or> max_temp_c c \<noteq> None))"
proof -
  have s: "\<not> list_ex (\<lambda>b. starts_with b TEMP_LABEL) (season_bullet ss)"
    by (simp add: season_bullet_def Let_def SEASON_LABEL_def TEMP_LABEL_def)
  have r: "\<not> list_ex (\<lambda>b. starts_with b TEMP_LABEL) (rh_bullet env clim)"
    by (simp add: rh_bullet_def Let_def RH_LABEL_def TEMP_LABEL_def split: option.splits)
  have d: "\<not> list_ex (\<lambda>b. starts_with b TEMP_LABEL) (disease_bullet ds)"
    by (simp add: disease_bullet_def DISEASE_LABEL_def TEMP_LABEL_def)
  have l: "\<not> list_ex (\<lambda>b. starts_with b TEMP_LABEL) (location_bullet locs)"
    by (simp add: location_bullet_def Let_def LOCATION_LABEL_def TEMP_LABEL_def)
  have t: "list_ex (\<lambda>b. starts_with b TEMP_LABEL) (temp_bullet env clim) = (temp_bullet env clim \<noteq> [])"
    by (simp add: temp_bullet_def Let_def split: option.splits)
  show ?thesis
    using s r d l t temp_bullet_iff [of env clim] by (simp add: render_bullets_def)
qed

text \<open>Runs on the small graph.\<close>

lemma demo_resolve_aman:
  "resolve_crop ascii_env demo_graph (py ''Aman'')
     = ([GraphQuery (CyExact (py ''Aman''))], Inr (Some (crop_row aman)))"
  by (simp add: resolve_crop_def normalize_bn_def ascii_env_def strip_def is_space_def py_def
      run_def demo_graph_def cy_exact_def exact_match_def coalesce_def ascii_lower_def
      aman_def jute_def crop_row_def and_then_def ret_def Let_def)

lemma demo_locations: "cy_locations demo_graph (Some (py ''aman'')) 10 = aman_top"
  by (simp add: cy_locations_def crops_with_id_def demo_graph_def aman_def jute_def py_def
      production_key_def coalesce_def aman_top_def)

lemma demo_answer_aman:
  "graph_answer_for_crop ascii_env demo_graph (py ''Aman'')
     = (aman_trace,
        Inr (GraphRAG (crop_row aman) aman_facts
               (render_bullets ascii_env (suitable_in aman) aman_top (Some (climate aman)) [])))"
proof -
  have id: "cid (crop_row aman) = Some (py ''aman'')" by (simp add: crop_row_def aman_def)
  have w: "crops_with_id demo_graph (Some (py ''aman'')) = [aman]"
    by (simp add: crops_with_id_def demo_graph_def aman_def jute_def py_def)
  have f: "\<And>c. \<not> fails demo_graph c" by (simp add: demo_graph_def)
  have s: "cy_seasons demo_graph (Some (py ''aman'')) = suitable_in aman"
    by (simp add: cy_seasons_def w order_by_str_def aman_def)
  have c: "cy_climate demo_graph (Some (py ''aman'')) = [climate aman]"
    by (simp add: cy_climate_def w)
  have d: "cy_diseases demo_graph (Some (py ''aman'')) = []"
    by (simp add: cy_diseases_def w order_by_str_def aman_def)
  show ?thesis
    unfolding graph_answer_for_crop_def demo_resolve_aman
    by (simp add: and_then_def ret_def id crop_seasons_def crop_locations_def crop_climate_def
        crop_diseases_def attempt_def run_def f s c d demo_locations aman_facts_def
        aman_trace_def)
qed

text \<open>
  Claim C7. A temperature bullet is rendered if and only if the climate row exists and at
  least one of \<open>min_temp_c\<close>, \<open>max_temp_c\<close> is present, for the bullet on its own, for the
  rendered bullet list, and for the bullets \<open>graph_answer_for_crop\<close> returns; with only
  \<open>min_temp_c\<close> present the upper bound is the placeholder dash U+2014.
\<close>

theorem temperature_bullet:
  "(temp_bullet env clim \<noteq> []) =
      (\<exists>c. clim = Some c \<and> (min_temp_c c \<noteq> None \<or> max_temp_c c \<noteq> None)) \<and>
   list_ex (\<lambda>b. starts_with b TEMP_LABEL) (render_bullets env ss locs clim ds) =
      (\<exists>c. clim = Some c \<and> (min_temp_c c \<noteq> None \<or> max_temp_c c \<noteq> None)) \<and>
   (clim = Some c \<and> min_temp_c c = Some x \<and> max_temp_c c = None \<longrightarrow>
      temp_bullet env clim
        = [TEMP_LABEL @ bn_num env (Some x) @ RANGE_SEP @ DASH @ [0xB0, 0x43]]) \<and>
   DASH = [0x2014] \<and>
   (graph_answer_for_crop env g q = (t, Inr (GraphRAG cr f bs)) \<longrightarrow>
      climate_facts f = (case cy_climate g (cid cr) of [] \<Rightarrow> None | r # rs \<Rightarrow> Some r) \<and>
      list_ex (\<lambda>b. starts_with b TEMP_LABEL) bs =
        (\<exists>cl. climate_facts f = Some cl \<and> (min_temp_c cl \<noteq> None \<or> max_temp_c cl \<noteq> None)))"
proof (intro conjI impI)
  show "(temp_bullet env clim \<noteq> []) =
      (\<exists>c. clim = Some c \<and> (min_temp_c c \<noteq> None \<or> max_temp_c c \<noteq> None))"
    by (rule temp_bullet_iff)
  show "list_ex (\<lambda>b. starts_with b TEMP_LABEL) (render_bullets env ss locs clim ds) =
      (\<exists>c. clim = Some c \<and> (min_temp_c c \<noteq> None \<or> max_temp_c c \<noteq> None))"
    by (rule render_has_temp_bullet)
  show "DASH = [0x2014]" by (simp add: DASH_def)
next
  assume "clim = Some c \<and> min_temp_c c = Some x \<and> max_temp_c c = None"
  then show "temp_bullet env clim
      = [TEMP_LABEL @ bn_num env (Some x) @ RANGE_SEP @ DASH @ [0xB0, 0x43]]"
    by (simp add: temp_bullet_def Let_def)
next
  assume a: "graph_answer_for_crop env g q = (t, Inr (GraphRAG cr f bs))"
  show "climate_facts f = (case cy_climate g (cid cr) of [] \<Rightarrow> None | r # rs \<Rightarrow> Some r)"
    using graph_answer_facts [OF a] by simp
  have "bs = render_bullets env (seasons f) (locations f) (climate_facts f) (diseases f)"
    using graph_answer_facts [OF a] by simp
  then show "list_ex (\<lambda>b. starts_with b TEMP_LABEL) bs =
        (\<exists>cl. climate_facts f = Some cl \<and> (min_temp_c cl \<noteq> None \<or> max_temp_c cl \<noteq> None))"
    by (simp only: render_has_temp_bullet)
qed

theorem temperature_bullet_witness:
  "Some (climate aman) = Some (climate aman) \<and> min_temp_c (climate aman) = Some (PyInt 20) \<and>
   max_temp_c (climate aman) = None \<and>
   temp_bullet ascii_env (Some (climate aman))
     = [TEMP_LABEL @ [0x9E8, 0x9E6] @ [0x2013] @ [0x2014] @ [0xB0, 0x43]] \<and>
   graph_answer_for_crop ascii_env demo_graph (py ''Aman'')
     = (aman_trace,
        Inr (GraphRAG (crop_row aman) aman_facts
               (render_bullets ascii_env (suitable_in aman) aman_top (Some (climate aman)) []))) \<and>
   list_ex (\<lambda>b. starts_with b TEMP_LABEL)
     (render_bullets ascii_env (suitable_in aman) aman_top (Some (climate aman)) [])"
proof -
  note T = temperature_bullet [where env = ascii_env and clim = "Some (climate aman)"
        and c = "climate aman" and x = "PyInt 20" and g = demo_graph and q = "py ''Aman''"
        and t = aman_trace and cr = "crop_row aman" and f = aman_facts
        and bs = "render_bullets ascii_env (suitable_in aman) aman_top (Some (climate aman)) []"]
  have m: "Some (climate aman) = Some (climate aman) \<and> min_temp_c (climate aman) = Some (PyInt 20)
           \<and> max_temp_c (climate aman) = None"
    by (simp add: aman_def)
  have n: "bn_num ascii_env (Some (PyInt 20)) = [0x9E8, 0x9E6]"
    by (simp add: bn_num_def int_str_def nat_str.simps translate_def BN_DIGITS_def py_def)
  have a: "temp_bullet ascii_env (Some (climate aman))
      = [TEMP_LABEL @ bn_num ascii_env (Some (PyInt 20)) @ RANGE_SEP @ DASH @ [0xB0, 0x43]]"
    using T [THEN conjunct2, THEN conjunct2, THEN conjunct1, THEN mp, OF m] .
  have b: "list_ex (\<lambda>b. starts_with b TEMP_LABEL)
     (render_bullets ascii_env (suitable_in aman) aman_top (Some (climate aman)) [])"
    using T [THEN conjunct2, THEN conjunct2, THEN conjunct2, THEN conjunct2, THEN mp,
             OF demo_answer_aman, THEN conjunct2] m
    by (simp add: aman_facts_def)
  have a': "temp_bullet ascii_env (Some (climate aman))
     = [TEMP_LABEL @ [0x9E8, 0x9E6] @ [0x2013] @ [0x2014] @ [0xB0, 0x43]]"
    using a by (simp only: n RANGE_SEP_def DASH_def)
  show ?thesis
    using m a' b demo_answer_aman by (intro conjI) simp_all
qed

subsection \<open>The locations\<close>

lemma cy_locations_sorted:
  "sorted (map (\<lambda>r. - production_key r) (cy_locations g crop_id limit))"
  unfolding cy_locations_def take_map [symmetric]
  by (intro sorted_wrt_take) simp

lemma cy_locations_top:
  "\<exists>rest. set (cy_locations g crop_id limit @ rest)
            = set (concat (map cultivated_in (crops_with_id g crop_id)))
       \<and> length (cy_locations g crop_id limit @ rest)
            = length (concat (map cultivated_in (crops_with_id g crop_id)))
       \<and> sorted (map (\<lambda>r. - production_key r) (cy_locations g crop_id limit @ rest))"
proof -
  let ?all = "sort_key (\<lambda>r. - production_key r) (concat (map cultivated_in (crops_with_id g crop_id)))"
  have "cy_locations g crop_id limit @ drop (nat limit) ?all = ?all"
    by (simp add: cy_locations_def)
  moreover have "set ?all = set (concat (map cultivated_in (crops_with_id g crop_id)))" by simp
  moreover have "length ?all = length (concat (map cultivated_in (crops_with_id g crop_id)))" by simp
  moreover have "sorted (map (\<lambda>r. - production_key r) ?all)" by simp
  ultimately show ?thesis by metis
qed

lemma nulls_after:
  assumes "sorted (map (\<lambda>r. - production_key r) rows)" "i < j" "j < length rows"
    "production (rows ! i) = None"
  shows "production_key (rows ! j) \<le> - 1"
proof -
  have "map (\<lambda>r. - production_key r) rows ! i \<le> map (\<lambda>r. - production_key r) rows ! j"
    using assms(1,2,3) by (intro sorted_nth_mono) auto
  then have "production_key (rows ! j) \<le> production_key (rows ! i)"
    using assms(2,3) by simp
  then show ?thesis using assms(4) by (simp add: production_key_def coalesce_def)
qed

lemma location_entries_length: "length (location_entries locs) \<le> 5"
proof -
  have "length (location_entries locs) \<le> length (take 5 locs)"
    unfolding location_entries_def by (simp del: length_take)
  then show ?thesis by simp
qed

lemma location_entries_from:
  "\<forall>e \<in> set (location_entries locs). \<exists>r \<in> set (take 5 locs). truthy (location_name r) \<and>
      e = strip (coalesce (location_name r) [] @ py '' ('' @ bn_season (season r) @ py '')'')"
  by (auto simp: location_entries_def)

lemma location_bullet_cases:
  "location_bullet locs = [] \<or>
   location_bullet locs = [LOCATION_LABEL @ join (py '', '') (location_entries locs)]"
  by (simp add: location_bullet_def Let_def)

lemma demo_entries:
  "location_entries aman_top
     = [py ''Rangpur ('' @ [0x9B0, 0x9AC, 0x9BF] @ py '')'',
        py ''Bogura ('' @ [0x986, 0x9AE, 0x9A8] @ py '')'',
        py ''Dinajpur ()'',
        py ''Pabna ('' @ [0x996, 0x9B0, 0x9BF, 0x9AB, 0x2D, 0x9E7] @ py '')'']"
  by (simp add: location_entries_def aman_top_def aman_def truthy_def coalesce_def bn_season_def
      SEASON_MAP_def py_def strip_def is_space_def)

lemma dropWhile_snoc: "\<not> P c \<Longrightarrow> dropWhile P (xs @ [c]) = dropWhile P xs @ [c]"
  by (induction xs) auto

lemma strip_snoc: "\<not> is_space c \<Longrightarrow> strip (xs @ [c]) = dropWhile is_space xs @ [c]"
  by (simp add: strip_def dropWhile_snoc)

lemma strip_chars_snoc:
  "c \<notin> set chars \<Longrightarrow> strip_chars chars (xs @ [c]) = dropWhile (\<lambda>x. x \<in> set chars) xs @ [c]"
  by (simp add: strip_chars_def dropWhile_snoc)

lemma entry_shape:
  "strip (n @ py '' ('' @ l @ py '')'') = dropWhile is_space (n @ py '' ('' @ l) @ py '')''"
proof -
  have "strip ((n @ py '' ('' @ l) @ [41]) = dropWhile is_space (n @ py '' ('' @ l) @ [41]"
    by (rule strip_snoc) (simp add: is_space_def)
  then show ?thesis by (simp add: py_def)
qed

lemma join_last:
  "es \<noteq> [] \<Longrightarrow> \<forall>e \<in> set es. e \<noteq> [] \<and> last e = c \<Longrightarrow>
   join sep es \<noteq> [] \<and> last (join sep es) = c"
  by (induction sep es rule: join.induct) auto

lemma entry_last:
  assumes "e \<in> set (location_entries locs)"
  shows "e \<noteq> [] \<and> last e = 41"
proof -
  have "\<exists>r :: location_row. e = strip (coalesce (location_name r) [] @ py '' ('' @ bn_season (season r) @ py '')'')"
    using assms location_entries_from [of locs] by blast
  then obtain r :: location_row where
    "e = strip (coalesce (location_name r) [] @ py '' ('' @ bn_season (season r) @ py '')'')"
    by blast
  then have "e = dropWhile is_space (coalesce (location_name r) [] @ py '' ('' @ bn_season (season r)) @ [41]"
    by (simp add: entry_shape) (simp add: py_def)
  then show ?thesis by simp
qed

lemma location_bullet_eq:
  "location_bullet locs =
     (if location_entries locs = [] then []
      else [LOCATION_LABEL @ join (py '', '') (location_entries locs)])"
proof (cases "location_entries locs = []")
  case True
  then show ?thesis by (simp add: location_bullet_def strip_chars_def)
next
  case False
  then have l: "locs \<noteq> []" by (auto simp: location_entries_def)
  have j: "join (py '', '') (location_entries locs) \<noteq> [] \<and>
           last (join (py '', '') (location_entries locs)) = 41"
    using False entry_last by (intro join_last) auto
  then obtain ys where ys: "join (py '', '') (location_entries locs) = ys @ [41]"
    by (metis append_butlast_last_id)
  have "strip_chars (py '', '') (ys @ [41]) = dropWhile (\<lambda>x. x \<in> set (py '', '')) ys @ [41]"
    by (rule strip_chars_snoc) (simp add: py_def)
  then have "strip_chars (py '', '') (join (py '', '') (location_entries locs)) \<noteq> []"
    using ys by simp
  then show ?thesis using False l by (simp add: location_bullet_def Let_def)
qed

lemma location_entries_empty:
  "(location_entries locs = []) = (\<not> list_ex (\<lambda>r. truthy (location_name r)) (take 5 locs))"
  by (auto simp: location_entries_def list_ex_iff filter_empty_conv)

lemma boro_locations: "cy_locations boro_graph (Some (py ''boro'')) 10 = boro_top"
  by (simp add: cy_locations_def crops_with_id_def boro_graph_def boro_def loc_row_def py_def
      production_key_def coalesce_def boro_top_def)

lemma boro_entries: "location_entries boro_top = boro_shown"
  by (simp add: location_entries_def boro_top_def loc_row_def truthy_def coalesce_def
      bn_season_def SEASON_MAP_def py_def strip_def is_space_def boro_shown_def)

lemma boro_resolve:
  "resolve_crop ascii_env boro_graph (py ''Boro'')
     = ([GraphQuery (CyExact (py ''Boro''))], Inr (Some (crop_row boro)))"
  by (simp add: resolve_crop_def normalize_bn_def ascii_env_def strip_def is_space_def py_def
      run_def boro_graph_def demo_graph_def cy_exact_def exact_match_def coalesce_def
      ascii_lower_def boro_def crop_row_def and_then_def ret_def Let_def)

lemma boro_answer:
  "graph_answer_for_crop ascii_env boro_graph (py ''Boro'')
     = (boro_trace,
        Inr (GraphRAG (crop_row boro) boro_facts
               (render_bullets ascii_env [] boro_top (Some (climate boro)) [])))"
proof -
  have id: "cid (crop_row boro) = Some (py ''boro'')" by (simp add: crop_row_def boro_def)
  have w: "crops_with_id boro_graph (Some (py ''boro'')) = [boro]"
    by (simp add: crops_with_id_def boro_graph_def boro_def py_def)
  have f: "\<And>c. \<not> fails boro_graph c" by (simp add: boro_graph_def demo_graph_def)
  have s: "cy_seasons boro_graph (Some (py ''boro'')) = []"
    by (simp add: cy_seasons_def w order_by_str_def boro_def)
  have c: "cy_climate boro_graph (Some (py ''boro'')) = [climate boro]"
    by (simp add: cy_climate_def w)
  have d: "cy_diseases boro_graph (Some (py ''boro'')) = []"
    by (simp add: cy_diseases_def w order_by_str_def boro_def)
  show ?thesis
    unfolding graph_answer_for_crop_def boro_resolve
    by (simp add: and_then_def ret_def id crop_seasons_def crop_locations_def crop_climate_def
        crop_diseases_def attempt_def run_def f s c d boro_locations boro_facts_def
        boro_trace_def)
qed

lemma boro_bullets:
  "render_bullets ascii_env [] boro_top (Some (climate boro)) []
     = [LOCATION_LABEL @ join (py '', '') boro_shown]"
proof -
  have "boro_shown \<noteq> []" by (simp add: boro_shown_def)
  then show ?thesis
    by (simp add: render_bullets_def season_bullet_def temp_bullet_def rh_bullet_def
        disease_bullet_def boro_def location_bullet_eq boro_entries)
qed

text \<open>
  Claim C8. The aggregator fetches \<open>cy_locations g id 10\<close>: the first ten (or all, if
  fewer) of the crop's cultivation rows sorted by descending \<open>coalesce(production, -1)\<close>.
  A row with missing production is followed only by rows that rank at \<open>-1\<close> or below; when
  the production volumes are non-negative, it is followed only by rows with missing
  production. The location bullet is rendered exactly when one of the first five fetched
  rows has a name; it is the label followed by the entries joined by a comma, one entry per
  named row among the first five, in their order, each the name followed by the localized
  season label in parentheses; and it is the last bullet of the answer. The localized label
  of a season is its entry in \<open>SEASON_MAP\<close>, or the season name itself when the table has
  no entry for it, and the empty string for a missing season.
\<close>

theorem location_facts:
  "length (cy_locations g crop_id 10) \<le> 10 \<and>
   sorted (map (\<lambda>r. - production_key r) (cy_locations g crop_id 10)) \<and>
   production_key r0 = (case production r0 of None \<Rightarrow> - 1 | Some p \<Rightarrow> p) \<and>
   (\<exists>rest. set (cy_locations g crop_id 10 @ rest)
              = set (concat (map cultivated_in (crops_with_id g crop_id)))
         \<and> length (cy_locations g crop_id 10 @ rest)
              = length (concat (map cultivated_in (crops_with_id g crop_id)))
         \<and> sorted (map (\<lambda>r. - production_key r) (cy_locations g crop_id 10 @ rest))) \<and>
   (\<forall>i j. i < j \<and> j < length (cy_locations g crop_id 10)
          \<and> production (cy_locations g crop_id 10 ! i) = None
        \<longrightarrow> production_key (cy_locations g crop_id 10 ! j) \<le> - 1) \<and>
   ((\<forall>r \<in> set (cy_locations g crop_id 10). \<forall>p. production r = Some p \<longrightarrow> 0 \<le> p) \<longrightarrow>
      (\<forall>i j. i < j \<and> j < length (cy_locations g crop_id 10)
             \<and> production (cy_locations g crop_id 10 ! i) = None
           \<longrightarrow> production (cy_locations g crop_id 10 ! j) = None)) \<and>
   length (location_entries locs) \<le> 5 \<and>
   (\<forall>e \<in> set (location_entries locs). \<exists>r \<in> set (take 5 locs). truthy (location_name r) \<and>
      e = strip (coalesce (location_name r) [] @ py '' ('' @ bn_season (season r) @ py '')'')) \<and>
   (location_bullet locs = [] \<or>
    location_bullet locs = [LOCATION_LABEL @ join (py '', '') (location_entries locs)]) \<and>
   (graph_answer_for_crop env g q = (t, Inr (GraphRAG cr f bs)) \<longrightarrow>
      locations f = cy_locations g (cid cr) 10 \<and>
      (\<exists>others. bs = others @ location_bullet (locations f))) \<and>
   length (cy_locations g crop_id 10)
     = min 10 (length (concat (map cultivated_in (crops_with_id g crop_id)))) \<and>
   location_entries locs =
     map (\<lambda>r. strip (coalesce (location_name r) [] @ py '' ('' @ bn_season (season r) @ py '')''))
       (filter (\<lambda>r. truthy (location_name r)) (take 5 locs)) \<and>
   strip (n @ py '' ('' @ l @ py '')'') = dropWhile is_space (n @ py '' ('' @ l) @ py '')'' \<and>
   location_bullet locs =
     (if location_entries locs = [] then []
      else [LOCATION_LABEL @ join (py '', '') (location_entries locs)]) \<and>
   (location_bullet locs \<noteq> []) = list_ex (\<lambda>r. truthy (location_name r)) (take 5 locs) \<and>
   render_bullets env ss locs clim ds =
     season_bullet ss @ temp_bullet env clim @ rh_bullet env clim @ disease_bullet ds
     @ location_bullet locs \<and>
   (graph_answer_for_crop env g q = (t, Inr (GraphRAG cr f bs)) \<and>
    list_ex (\<lambda>r. truthy (location_name r)) (take 5 (cy_locations g (cid cr) 10)) \<longrightarrow>
      bs \<noteq> [] \<and>
      last bs = LOCATION_LABEL @ join (py '', '') (location_entries (cy_locations g (cid cr) 10))) \<and>
   bn_season None = [] \<and>
   bn_season (Some sn) = (case map_of SEASON_MAP sn of None \<Rightarrow> sn | Some b \<Rightarrow> b) \<and>
   map (\<lambda>k. bn_season (Some k)) (map fst SEASON_MAP) = map snd SEASON_MAP"
proof (intro conjI impI allI)
  show "length (cy_locations g crop_id 10) \<le> 10" by (simp add: cy_locations_def)
  show "sorted (map (\<lambda>r. - production_key r) (cy_locations g crop_id 10))"
    by (rule cy_locations_sorted)
  show "production_key r0 = (case production r0 of None \<Rightarrow> - 1 | Some p \<Rightarrow> p)"
    by (simp add: production_key_def coalesce_def)
  show "\<exists>rest. set (cy_locations g crop_id 10 @ rest)
              = set (concat (map cultivated_in (crops_with_id g crop_id)))
         \<and> length (cy_locations g crop_id 10 @ rest)
              = length (concat (map cultivated_in (crops_with_id g crop_id)))
         \<and> sorted (map (\<lambda>r. - production_key r) (cy_locations g crop_id 10 @ rest))"
    by (rule cy_locations_top)
  show "length (location_entries locs) \<le> 5" by (rule location_entries_length)
  show "\<forall>e \<in> set (location_entries locs). \<exists>r \<in> set (take 5 locs). truthy (location_name r) \<and>
      e = strip (coalesce (location_name r) [] @ py '' ('' @ bn_season (season r) @ py '')'')"
    by (rule location_entries_from)
  show "location_bullet locs = [] \<or>
    location_bullet locs = [LOCATION_LABEL @ join (py '', '') (location_entries locs)]"
    by (rule location_bullet_cases)
next
  fix i j
  assume "i < j \<and> j < length (cy_locations g crop_id 10)
          \<and> production (cy_locations g crop_id 10 ! i) = None"
  then show "production_key (cy_locations g crop_id 10 ! j) \<le> - 1"
    using nulls_after [OF cy_locations_sorted] by blast
next
  fix i j
  let ?rows = "cy_locations g crop_id 10"
  assume nonneg: "\<forall>r \<in> set ?rows. \<forall>p. production r = Some p \<longrightarrow> 0 \<le> p"
    and ij: "i < j \<and> j < length ?rows \<and> production (?rows ! i) = None"
  have "production_key (?rows ! j) \<le> - 1"
    using nulls_after [OF cy_locations_sorted] ij by blast
  moreover have "?rows ! j \<in> set ?rows" using ij by simp
  ultimately show "production (?rows ! j) = None"
    using nonneg by (cases "production (?rows ! j)") (auto simp: production_key_def coalesce_def)
next
  assume a: "graph_answer_for_crop env g q = (t, Inr (GraphRAG cr f bs))"
  show "locations f = cy_locations g (cid cr) 10"
    using graph_answer_facts [OF a] by simp
  have "bs = render_bullets env (seasons f) (locations f) (climate_facts f) (diseases f)"
    using graph_answer_facts [OF a] by simp
  then show "\<exists>others. bs = others @ location_bullet (locations f)"
    by (simp add: render_bullets_def)
next
  show "length (cy_locations g crop_id 10)
     = min 10 (length (concat (map cultivated_in (crops_with_id g crop_id))))"
    by (simp add: cy_locations_def)
  show "location_entries locs =
     map (\<lambda>r. strip (coalesce (location_name r) [] @ py '' ('' @ bn_season (season r) @ py '')''))
       (filter (\<lambda>r. truthy (location_name r)) (take 5 locs))"
    by (simp add: location_entries_def)
  show "strip (n @ py '' ('' @ l @ py '')'') = dropWhile is_space (n @ py '' ('' @ l) @ py '')''"
    by (rule entry_shape)
  show "location_bullet locs =
     (if location_entries locs = [] then []
      else [LOCATION_LABEL @ join (py '', '') (location_entries locs)])"
    by (rule location_bullet_eq)
  show "(location_bullet locs \<noteq> []) = list_ex (\<lambda>r. truthy (location_name r)) (take 5 locs)"
    by (simp add: location_bullet_eq location_entries_empty)
  show "render_bullets env ss locs clim ds =
     season_bullet ss @ temp_bullet env clim @ rh_bullet env clim @ disease_bullet ds
     @ location_bullet locs"
    by (simp add: render_bullets_def)
next
  assume a: "graph_answer_for_crop env g q = (t, Inr (GraphRAG cr f bs)) \<and>
    list_ex (\<lambda>r. truthy (location_name r)) (take 5 (cy_locations g (cid cr) 10))"
  let ?rows = "cy_locations g (cid cr) 10"
  have f: "locations f = ?rows"
    and bs: "bs = render_bullets env (seasons f) (locations f) (climate_facts f) (diseases f)"
    using graph_answer_facts [of env g q t cr f bs] a by simp_all
  have ne: "location_entries ?rows \<noteq> []"
    using a by (simp add: location_entries_empty)
  then have lb: "location_bullet ?rows = [LOCATION_LABEL @ join (py '', '') (location_entries ?rows)]"
    by (simp add: location_bullet_eq)
  show "bs \<noteq> []" using bs f lb by (simp add: render_bullets_def)
  show "last bs = LOCATION_LABEL @ join (py '', '') (location_entries ?rows)"
    using bs f lb by (simp add: render_bullets_def)
next
  show "bn_season None = []" by (simp add: bn_season_def)
  show "bn_season (Some sn) = (case map_of SEASON_MAP sn of None \<Rightarrow> sn | Some b \<Rightarrow> b)"
    by (simp add: bn_season_def SEASON_MAP_def py_def)
  show "map (\<lambda>k. bn_season (Some k)) (map fst SEASON_MAP) = map snd SEASON_MAP"
    by (simp add: bn_season_def SEASON_MAP_def py_def)
qed

theorem location_facts_witness:
  "cy_locations demo_graph (Some (py ''aman'')) 10 = aman_top \<and>
   map production aman_top = [Some 9, Some 5, None, None] \<and>
   list_all (\<lambda>r. case production r of None \<Rightarrow> True | Some p \<Rightarrow> 0 \<le> p) aman_top \<and>
   (2::nat) < 3 \<and> 3 < length aman_top \<and> production (aman_top ! 2) = None \<and>
   production (aman_top ! 3) = None \<and>
   location_entries aman_top
     = [py ''Rangpur ('' @ [0x9B0, 0x9AC, 0x9BF] @ py '')'',
        py ''Bogura ('' @ [0x986, 0x9AE, 0x9A8] @ py '')'',
        py ''Dinajpur ()'',
        py ''Pabna ('' @ [0x996, 0x9B0, 0x9BF, 0x9AB, 0x2D, 0x9E7] @ py '')''] \<and>
   graph_answer_for_crop ascii_env demo_graph (py ''Aman'')
     = (aman_trace,
        Inr (GraphRAG (crop_row aman) aman_facts
               (render_bullets ascii_env (suitable_in aman) aman_top (Some (climate aman)) []))) \<and>
   locations aman_facts = cy_locations demo_graph (cid (crop_row aman)) 10 \<and>
   length (concat (map cultivated_in (crops_with_id boro_graph (Some (py ''boro''))))) = 12 \<and>
   cy_locations boro_graph (Some (py ''boro'')) 10 = boro_top \<and>
   length boro_top = 10 \<and>
   map production boro_top
     = [Some 240, Some 120, Some 88, Some 61, Some 45, Some 30, Some 19, Some 7, None, None] \<and>
   list_all (\<lambda>r. case production r of None \<Rightarrow> True | Some p \<Rightarrow> 0 \<le> p) boro_top \<and>
   production (boro_top ! 8) = None \<and> production (boro_top ! 9) = None \<and>
   location_entries boro_top = boro_shown \<and> length boro_shown = 5 \<and>
   list_ex (\<lambda>r. truthy (location_name r)) (take 5 boro_top) \<and>
   location_bullet boro_top = [LOCATION_LABEL @ join (py '', '') boro_shown] \<and>
   graph_answer_for_crop ascii_env boro_graph (py ''Boro'')
     = (boro_trace,
        Inr (GraphRAG (crop_row boro) boro_facts
               [LOCATION_LABEL @ join (py '', '') boro_shown])) \<and>
   last [LOCATION_LABEL @ join (py '', '') boro_shown]
     = LOCATION_LABEL @ join (py '', '') (location_entries boro_top) \<and>
   bn_season (Some (py ''Boro'')) = [0x9AC, 0x9CB, 0x9B0, 0x9CB] \<and>
   bn_season (Some (py ''Kharif 1'')) = [0x996, 0x9B0, 0x9BF, 0x9AB, 0x2D, 0x9E7] \<and>
   bn_season (Some (py ''Winter'')) = py ''Winter''"
proof -
  note T = location_facts [where g = demo_graph and crop_id = "Some (py ''aman'')"
        and locs = aman_top and env = ascii_env and q = "py ''Aman''"
        and t = aman_trace and cr = "crop_row aman" and f = aman_facts
        and bs = "render_bullets ascii_env (suitable_in aman) aman_top (Some (climate aman)) []",
        unfolded demo_locations]
  have p: "map production aman_top = [Some 9, Some 5, None, None]"
    by (simp add: aman_top_def aman_def)
  have nn: "\<forall>r \<in> set aman_top. \<forall>p. production r = Some p \<longrightarrow> 0 \<le> p"
    by (simp add: aman_top_def aman_def)
  have la: "list_all (\<lambda>r. case production r of None \<Rightarrow> True | Some p \<Rightarrow> 0 \<le> p) aman_top"
    by (simp add: aman_top_def aman_def)
  have len: "3 < length aman_top" by (simp add: aman_top_def)
  have i2: "production (aman_top ! 2) = None" by (simp add: aman_top_def aman_def)
  have "\<forall>i j. i < j \<and> j < length aman_top \<and> production (aman_top ! i) = None
           \<longrightarrow> production (aman_top ! j) = None"
    using T [THEN conjunct2, THEN conjunct2, THEN conjunct2, THEN conjunct2, THEN conjunct2, THEN conjunct1, THEN mp, OF nn] .
  then have i3: "production (aman_top ! 3) = None"
    using len i2 by (elim allE [of _ "2::nat"] allE [of _ "3::nat"]) simp
  have loc: "locations aman_facts = cy_locations demo_graph (cid (crop_row aman)) 10"
    using T [THEN conjunct2, THEN conjunct2, THEN conjunct2, THEN conjunct2, THEN conjunct2, THEN conjunct2, THEN conjunct2, THEN conjunct2, THEN conjunct2, THEN conjunct1, THEN mp,
             OF demo_answer_aman, THEN conjunct1] .
  have id: "cid (crop_row boro) = Some (py ''boro'')" by (simp add: crop_row_def boro_def)
  note B = location_facts [where g = boro_graph and crop_id = "Some (py ''boro'')"
        and locs = boro_top and env = ascii_env and q = "py ''Boro''"
        and t = boro_trace and cr = "crop_row boro" and f = boro_facts
        and bs = "render_bullets ascii_env [] boro_top (Some (climate boro)) []",
        unfolded id boro_locations]
  have all12: "length (concat (map cultivated_in (crops_with_id boro_graph (Some (py ''boro''))))) = 12"
    by (simp add: crops_with_id_def boro_graph_def boro_def py_def)
  have len10: "length boro_top = 10"
    using B [THEN conjunct2, THEN conjunct2, THEN conjunct2, THEN conjunct2, THEN conjunct2, THEN conjunct2, THEN conjunct2, THEN conjunct2, THEN conjunct2, THEN conjunct2, THEN conjunct1] all12 by simp
  have bp: "map production boro_top
     = [Some 240, Some 120, Some 88, Some 61, Some 45, Some 30, Some 19, Some 7, None, None]"
    by (simp add: boro_top_def loc_row_def)
  have bnn: "\<forall>r \<in> set boro_top. \<forall>p. production r = Some p \<longrightarrow> 0 \<le> p"
    by (simp add: boro_top_def loc_row_def)
  have bla: "list_all (\<lambda>r. case production r of None \<Rightarrow> True | Some p \<Rightarrow> 0 \<le> p) boro_top"
    by (simp add: boro_top_def loc_row_def)
  have b8: "production (boro_top ! 8) = None" by (simp add: boro_top_def loc_row_def)
  have "\<forall>i j. i < j \<and> j < length boro_top \<and> production (boro_top ! i) = None
           \<longrightarrow> production (boro_top ! j) = None"
    using B [THEN conjunct2, THEN conjunct2, THEN conjunct2, THEN conjunct2, THEN conjunct2, THEN conjunct1, THEN mp, OF bnn] .
  then have b9: "production (boro_top ! 9) = None"
    using len10 b8 by (elim allE [of _ "8::nat"] allE [of _ "9::nat"]) simp
  have shown5: "length boro_shown = 5"
    using B [THEN conjunct2, THEN conjunct2, THEN conjunct2, THEN conjunct2, THEN conjunct2, THEN conjunct2, THEN conjunct1] by (simp add: boro_entries boro_shown_def)
  have named: "list_ex (\<lambda>r. truthy (location_name r)) (take 5 boro_top)"
    by (simp add: boro_top_def loc_row_def truthy_def py_def)
  have bullet: "location_bullet boro_top = [LOCATION_LABEL @ join (py '', '') boro_shown]"
    using B [THEN conjunct2, THEN conjunct2, THEN conjunct2, THEN conjunct2, THEN conjunct2, THEN conjunct2, THEN conjunct2, THEN conjunct2, THEN conjunct2, THEN conjunct2, THEN conjunct2, THEN conjunct2, THEN conjunct2, THEN conjunct1] by (simp add: boro_entries boro_shown_def)
  have ans: "graph_answer_for_crop ascii_env boro_graph (py ''Boro'')
     = (boro_trace,
        Inr (GraphRAG (crop_row boro) boro_facts
               (render_bullets ascii_env [] boro_top (Some (climate boro)) [])))"
    by (rule boro_answer)
  have lastb: "last (render_bullets ascii_env [] boro_top (Some (climate boro)) [])
      = LOCATION_LABEL @ join (py '', '') (location_entries boro_top)"
    using B [THEN conjunct2, THEN conjunct2, THEN conjunct2, THEN conjunct2, THEN conjunct2, THEN conjunct2, THEN conjunct2, THEN conjunct2, THEN conjunct2, THEN conjunct2, THEN conjunct2, THEN conjunct2, THEN conjunct2, THEN conjunct2, THEN conjunct2, THEN conjunct2, THEN conjunct1, THEN mp, OF conjI, OF ans named, THEN conjunct2] .
  have ans': "graph_answer_for_crop ascii_env boro_graph (py ''Boro'')
     = (boro_trace,
        Inr (GraphRAG (crop_row boro) boro_facts
               [LOCATION_LABEL @ join (py '', '') boro_shown]))"
    using ans by (simp only: boro_bullets)
  have lastb': "last [LOCATION_LABEL @ join (py '', '') boro_shown]
     = LOCATION_LABEL @ join (py '', '') (location_entries boro_top)"
    using lastb by (simp only: boro_bullets)
  have s1: "bn_season (Some (py ''Boro'')) = [0x9AC, 0x9CB, 0x9B0, 0x9CB]"
    using location_facts [where sn = "py ''Boro''", THEN conjunct2, THEN conjunct2, THEN conjunct2, THEN conjunct2, THEN conjunct2, THEN conjunct2, THEN conjunct2, THEN conjunct2, THEN conjunct2, THEN conjunct2, THEN conjunct2, THEN conjunct2, THEN conjunct2, THEN conjunct2, THEN conjunct2, THEN conjunct2, THEN conjunct2, THEN conjunct2, THEN conjunct1]
    by (simp add: SEASON_MAP_def py_def)
  have s2: "bn_season (Some (py ''Kharif 1'')) = [0x996, 0x9B0, 0x9BF, 0x9AB, 0x2D, 0x9E7]"
    using location_facts [where sn = "py ''Kharif 1''", THEN conjunct2, THEN conjunct2, THEN conjunct2, THEN conjunct2, THEN conjunct2, THEN conjunct2, THEN conjunct2, THEN conjunct2, THEN conjunct2, THEN conjunct2, THEN conjunct2, THEN conjunct2, THEN conjunct2, THEN conjunct2, THEN conjunct2, THEN conjunct2, THEN conjunct2, THEN conjunct2, THEN conjunct1]
    by (simp add: SEASON_MAP_def py_def)
  have s3: "bn_season (Some (py ''Winter'')) = py ''Winter''"
    using location_facts [where sn = "py ''Winter''", THEN conjunct2, THEN conjunct2, THEN conjunct2, THEN conjunct2, THEN conjunct2, THEN conjunct2, THEN conjunct2, THEN conjunct2, THEN conjunct2, THEN conjunct2, THEN conjunct2, THEN conjunct2, THEN conjunct2, THEN conjunct2, THEN conjunct2, THEN conjunct2, THEN conjunct2, THEN conjunct2, THEN conjunct1]
    by (simp add: SEASON_MAP_def py_def)
  show ?thesis
    using demo_locations p la len i2 i3 demo_entries demo_answer_aman loc
      all12 boro_locations len10 bp bla b8 b9 boro_entries shown5 named bullet ans' lastb'
      s1 s2 s3
    by (intro conjI) simp_all
qed

section \<open>Crop resolution\<close>

lemma run_ok: "\<not> fails g c \<Longrightarrow> run g c rows = ([GraphQuery c], Inr rows)"
  by (simp add: run_def)

lemma manual_loop_tiers:
  assumes nf: "\<And>c. \<not> fails g c"
  shows "\<forall>(key, targets) \<in> set tab. targets \<noteq> [] \<Longrightarrow>
     manual_loop env g q tab =
       (map GraphQuery (tried (map (\<lambda>(key, targets). (CyContains (hd targets), cy_contains g (hd targets)))
              (filter (\<lambda>(key, targets). contains q (normalize_bn env key)) tab))),
        Inr (first_hit (map (\<lambda>(key, targets). (CyContains (hd targets), cy_contains g (hd targets)))
              (filter (\<lambda>(key, targets). contains q (normalize_bn env key)) tab))))"
proof (induction tab)
  case Nil
  then show ?case by (simp add: ret_def)
next
  case (Cons p tab)
  obtain key targets where p: "p = (key, targets)" by (cases p)
  have ne: "targets \<noteq> []" using Cons.prems p by simp
  then have g0: "getitem targets 0 = Inr (hd targets)"
    by (cases targets) (simp_all add: getitem_def)
  have IH: "manual_loop env g q tab =
       (map GraphQuery (tried (map (\<lambda>(key, targets). (CyContains (hd targets), cy_contains g (hd targets)))
              (filter (\<lambda>(key, targets). contains q (normalize_bn env key)) tab))),
        Inr (first_hit (map (\<lambda>(key, targets). (CyContains (hd targets), cy_contains g (hd targets)))
              (filter (\<lambda>(key, targets). contains q (normalize_bn env key)) tab))))"
    using Cons by simp
  show ?case
  proof (cases "contains q (normalize_bn env key)")
    case False
    then show ?thesis using p IH by simp
  next
    case True
    then show ?thesis
      using p IH g0 by (simp add: run_ok [OF nf] and_then_def ret_def)
  qed
qed

lemma manual_targets: "\<forall>(key, targets) \<in> set MANUAL_ALIASES. targets \<noteq> []"
  by (simp add: MANUAL_ALIASES_def)

lemma attempt_ok: "attempt (t, Inr x) h = (t, Inr x)"
  by (simp add: attempt_def)

lemma resolve_crop_first_hit:
  assumes nf: "\<And>c. \<not> fails g c"
  shows "resolve_crop env g q0 =
     (map GraphQuery (tried (tiers env g (normalize_bn env q0))),
      Inr (first_hit (tiers env g (normalize_bn env q0))))"
  unfolding resolve_crop_def tiers_def Let_def
  by (simp add: run_ok [OF nf] attempt_ok and_then_def ret_def
      manual_loop_tiers [OF nf manual_targets])






lemma demo_norm: "normalize_bn ascii_env (py ''ama'') = py ''ama''"
  "normalize_bn ascii_env (py ''rice'') = py ''rice''"
  "normalize_bn ascii_env (py ''hello'') = py ''hello''"
  by (simp_all add: normalize_bn_def ascii_env_def strip_def is_space_def py_def)


lemma demo_tiers_ama:
  "tiers ascii_env demo_graph (py ''ama'') =
     [(CyExact (py ''ama''), []), (CyAlias (py ''ama''), []), (CyFt (py ''ama''), []),
      (CyContains (py ''ama''), [crop_row aman])]"
  by (simp add: tiers_def cy_exact_def cy_alias_def cy_ft_def cy_contains_def exact_match_def
      contains_match_def demo_graph_def aman_def jute_def crop_row_def coalesce_def
      ascii_lower_def py_def MANUAL_ALIASES_def normalize_bn_def ascii_env_def strip_def
      is_space_def)


lemma demo_tiers_hello:
  "tiers ascii_env demo_graph (py ''hello'') =
     [(CyExact (py ''hello''), []), (CyAlias (py ''hello''), []),
      (CyFt (py ''hello''), []), (CyContains (py ''hello''), [])]"
  by (simp add: tiers_def cy_exact_def cy_alias_def cy_ft_def cy_contains_def exact_match_def
      contains_match_def demo_graph_def aman_def jute_def crop_row_def coalesce_def
      ascii_lower_def py_def MANUAL_ALIASES_def normalize_bn_def ascii_env_def strip_def
      is_space_def)


















section \<open>The router: fallback and failures\<close>

text \<open>Neither the graph functions nor the search call the generator.\<close>

lemma quiet_nil [simp]: "no_generation []"
  by (simp add: no_generation_def)

lemma quiet_append [simp]: "no_generation (s @ t) = (no_generation s \<and> no_generation t)"
  by (auto simp: no_generation_def)

lemma quiet_and_then:
  assumes "no_generation (fst m)" "\<And>v. no_generation (fst (f v))"
  shows "no_generation (fst (and_then m f))"
proof (cases m)
  case (Pair t r)
  show ?thesis
  proof (cases r)
    case (Inl e)
    then show ?thesis using Pair assms(1) by (simp add: and_then_def)
  next
    case (Inr x)
    obtain t' r' where f: "f x = (t', r')" by (cases "f x")
    have "no_generation t'" using assms(2) [of x] f by simp
    then show ?thesis using Pair Inr f assms(1) by (simp add: and_then_def)
  qed
qed

lemma quiet_attempt:
  assumes "no_generation (fst m)" "no_generation (fst h)"
  shows "no_generation (fst (attempt m h))"
  using assms by (cases m; cases h) (auto simp: attempt_def split: sum.splits)

lemma quiet_if:
  "no_generation (fst a) \<Longrightarrow> no_generation (fst b) \<Longrightarrow> no_generation (fst (if c then a else b))"
  by simp

lemma quiet_ret [simp]: "no_generation (fst (ret x))"
  by (simp add: ret_def)

lemma quiet_raise [simp]: "no_generation (fst (raise e))"
  by (simp add: raise_def)

lemma quiet_run [simp]: "no_generation (fst (run g c rows))"
  by (simp add: run_def no_generation_def)

lemma quiet_manual_loop: "no_generation (fst (manual_loop env g q tab))"
proof (induction tab)
  case Nil
  then show ?case by simp
next
  case (Cons p tab)
  obtain key targets where p: "p = (key, targets)" by (cases p)
  have "\<And>t. no_generation (fst (and_then (run g (CyContains t) (cy_contains g t)) (\<lambda>hit.
              if hit \<noteq> [] then ret (Some (hd hit)) else manual_loop env g q tab)))"
    by (intro quiet_and_then quiet_if quiet_run quiet_ret Cons)
  then show ?case
    unfolding p manual_loop.simps using Cons by (simp split: sum.splits)
qed

lemma quiet_resolve_crop: "no_generation (fst (resolve_crop env g q))"
  unfolding resolve_crop_def Let_def
  by (intro quiet_and_then quiet_attempt quiet_if quiet_run quiet_ret quiet_manual_loop)

lemma quiet_graph_answer: "no_generation (fst (graph_answer_for_crop env g q))"
proof -
  have "\<And>c. no_generation (fst (
          and_then (crop_seasons g (cid c)) (\<lambda>seasons.
          and_then (crop_locations g (cid c) 10) (\<lambda>locs.
          and_then (crop_climate g (cid c)) (\<lambda>clim.
          and_then (crop_diseases g (cid c)) (\<lambda>diseases.
            ret (GraphRAG c
                   \<lparr>seasons = seasons, locations = locs, climate_facts = clim,
                     diseases = diseases\<rparr>
                   (render_bullets env seasons locs clim diseases))))))))"
    unfolding crop_seasons_def crop_locations_def crop_climate_def crop_diseases_def
    by (intro quiet_and_then quiet_attempt quiet_if quiet_run quiet_ret)
       (simp add: no_generation_def)
  then show ?thesis
    unfolding graph_answer_for_crop_def
    by (intro quiet_and_then quiet_resolve_crop) (simp split: option.splits)
qed

lemma quiet_search:
  "no_generation (fst (search vs query k fetch_k src lang use_mmr lambda_mult))"
proof -
  have e: "no_generation (fst (embed_query vs query))"
    by (simp add: embed_query_def no_generation_def)
  have c: "no_generation (fst (conn vs))"
    by (simp add: conn_def no_generation_def ret_def)
  have f: "\<And>qvec. no_generation (fst (fetch_knn vs qvec fetch_k src lang))"
    unfolding fetch_knn_def
    by (intro quiet_and_then c quiet_if quiet_ret) (simp add: no_generation_def Let_def)
  show ?thesis
    unfolding search_def
    by (intro quiet_and_then e f quiet_if quiet_ret) (simp split: sum.splits)
qed

lemma vector_fallback_empty:
  assumes "search (vector_db w) (strip (question @ [32] @ AUG intent)) k (max 32 (k * 8)) None
             (Some (py ''bn'')) True (7/10) = (t3, Inr [])"
  shows "vector_fallback w intent question k = (t3, Inr APOLOGY)"
  using assms by (simp add: vector_fallback_def Let_def and_then_def ret_def)

lemma graph_paths_none:
  "graph_paths None env g intent question None = ([], Inr None)"
  by (simp add: graph_paths_def ret_def)

lemma graph_paths_empty:
  assumes "graph_answer_for_crop env g question = (t2, Inr res)" "bullets_bn res = []"
  shows "graph_paths None env g intent question (Some c) = (t2, Inr None)"
  using assms by (simp add: graph_paths_def and_then_def ret_def)

text \<open>Runs on the small world.\<close>

lemma demo_world_sel:
  "runtime demo_world = ascii_env" "graph_db demo_world = demo_graph"
  "vector_db demo_world = demo_vstore"
  by (simp_all add: demo_world_def)

lemma failing_world_sel:
  "runtime graph_down_world = ascii_env"
  "graph_db graph_down_world = demo_graph\<lparr>fails := (\<lambda>c. True)\<rparr>"
  "runtime vector_failing_world = ascii_env" "graph_db vector_failing_world = demo_graph"
  "vector_db vector_failing_world
     = demo_vstore\<lparr>connect_ok := True, execute := (\<lambda>qvec k src lang. Inl StoreError)\<rparr>"
  by (simp_all add: demo_world_def graph_down_world_def vector_failing_world_def)

lemma demo_search_empty:
  "search demo_vstore query 5 fetch_k None (Some (py ''bn'')) True (7/10)
     = ([Encode (py ''query: '' @ query), PgConnect], Inr [])"
  by (simp add: search_def embed_query_def fetch_knn_def conn_def demo_vstore_def and_then_def
      ret_def mmr_rerank_def)

lemma demo_search_failing:
  "search (demo_vstore\<lparr>connect_ok := True, execute := (\<lambda>qvec k src lang. Inl StoreError)\<rparr>)
     query 5 40 None (Some (py ''bn'')) True (7/10)
     = ([Encode (py ''query: '' @ query), PgConnect, PgQuery 40 None (Some (py ''bn''))],
        Inl StoreError)"
  by (simp add: search_def embed_query_def fetch_knn_def conn_def demo_vstore_def and_then_def
      ret_def truthy_def py_def Let_def)

lemma demo_norm_more:
  "normalize_bn ascii_env (py ''jute'') = py ''jute''"
  "normalize_bn ascii_env (py ''tomato disease'') = py ''tomato disease''"
  by (simp_all add: normalize_bn_def ascii_env_def strip_def is_space_def py_def)

lemma demo_tiers_tomato:
  "tiers ascii_env demo_graph (py ''tomato disease'') =
     [(CyExact (py ''tomato disease''), []), (CyAlias (py ''tomato disease''), []),
      (CyFt (py ''tomato disease''), []), (CyContains (py ''tomato disease''), [])]"
  by (simp add: tiers_def cy_exact_def cy_alias_def cy_ft_def cy_contains_def exact_match_def
      contains_match_def demo_graph_def aman_def jute_def crop_row_def coalesce_def
      ascii_lower_def py_def MANUAL_ALIASES_def normalize_bn_def ascii_env_def strip_def
      is_space_def)

lemma demo_nf: "\<And>c. \<not> fails demo_graph c"
  by (simp add: demo_graph_def)

lemma demo_resolve_tomato:
  "resolve_crop ascii_env demo_graph (py ''tomato disease'') =
     ([GraphQuery (CyExact (py ''tomato disease'')), GraphQuery (CyAlias (py ''tomato disease'')),
       GraphQuery (CyFt (py ''tomato disease'')), GraphQuery (CyContains (py ''tomato disease''))],
      Inr None)"
  by (simp add: resolve_crop_first_hit [OF demo_nf] demo_norm_more demo_tiers_tomato)

lemma demo_resolve_hello:
  "resolve_crop ascii_env demo_graph (py ''hello'') =
     ([GraphQuery (CyExact (py ''hello'')), GraphQuery (CyAlias (py ''hello'')),
       GraphQuery (CyFt (py ''hello'')), GraphQuery (CyContains (py ''hello''))],
      Inr None)"
  by (simp add: resolve_crop_first_hit [OF demo_nf] demo_norm demo_tiers_hello)

lemma demo_resolve_jute:
  "resolve_crop ascii_env demo_graph (py ''jute'')
     = ([GraphQuery (CyExact (py ''jute''))], Inr (Some (crop_row jute)))"
  by (simp add: resolve_crop_def normalize_bn_def ascii_env_def strip_def is_space_def py_def
      run_def demo_graph_def cy_exact_def exact_match_def coalesce_def ascii_lower_def
      aman_def jute_def crop_row_def and_then_def ret_def Let_def)

lemma demo_answer_jute:
  "graph_answer_for_crop ascii_env demo_graph (py ''jute'')
     = ([GraphQuery (CyExact (py ''jute'')), GraphQuery (CySeasons (Some (py ''jute''))),
         GraphQuery (CyLocations (Some (py ''jute'')) 10),
         GraphQuery (CyClimate (Some (py ''jute''))),
         GraphQuery (CyDiseases (Some (py ''jute'')))],
        Inr (GraphRAG (crop_row jute)
               \<lparr>seasons = [], locations = [], climate_facts = Some (climate jute),
                 diseases = []\<rparr> []))"
proof -
  have id: "cid (crop_row jute) = Some (py ''jute'')" by (simp add: crop_row_def jute_def)
  have w: "crops_with_id demo_graph (Some (py ''jute'')) = [jute]"
    by (simp add: crops_with_id_def demo_graph_def aman_def jute_def py_def)
  have s: "cy_seasons demo_graph (Some (py ''jute'')) = []"
    by (simp add: cy_seasons_def w order_by_str_def jute_def)
  have l: "cy_locations demo_graph (Some (py ''jute'')) 10 = []"
    by (simp add: cy_locations_def w jute_def)
  have c: "cy_climate demo_graph (Some (py ''jute'')) = [climate jute]"
    by (simp add: cy_climate_def w)
  have d: "cy_diseases demo_graph (Some (py ''jute'')) = []"
    by (simp add: cy_diseases_def w order_by_str_def jute_def)
  have b: "render_bullets ascii_env [] [] (Some (climate jute)) [] = []"
    by (simp add: render_bullets_def season_bullet_def temp_bullet_def rh_bullet_def
        disease_bullet_def location_bullet_def jute_def)
  show ?thesis
    unfolding graph_answer_for_crop_def demo_resolve_jute
    by (simp add: and_then_def ret_def id crop_seasons_def crop_locations_def crop_climate_def
        crop_diseases_def attempt_def run_def demo_nf s l c d b)
qed


lemma demo_intent_tomato: "detect_intent ascii_env (py ''tomato disease'') = Some Disease"
  by (simp add: detect_intent_def ascii_env_def ascii_lower_def py_def has_def DISEASE_def)

text \<open>
  Claim C6. When crop resolution returns no crop, or returns a crop for which
  \<open>graph_answer_for_crop\<close> yields no bullets, and the vector search returns no passage, then
  \<open>answer\<close> returns exactly the fixed apology, and the calls it made are those of the
  resolution, the fact aggregation and the search: no call of the text generator among them.
\<close>

theorem answer_apology:
  "resolve_crop (runtime w) (graph_db w) question = (t1, Inr crop) \<and>
   (crop = None \<and> t2 = [] \<or>
    (\<exists>c res. crop = Some c \<and>
       graph_answer_for_crop (runtime w) (graph_db w) question = (t2, Inr res) \<and>
       bullets_bn res = [])) \<and>
   search (vector_db w) (strip (question @ [32] @ AUG (detect_intent (runtime w) question))) k
     (max 32 (k * 8)) None (Some (py ''bn'')) True (7/10) = (t3, Inr [])
   \<longrightarrow> answer impl w question k = (t1 @ t2 @ t3, Inr APOLOGY) \<and>
       no_generation (fst (answer impl w question k)) \<and>
       (\<forall>prompt. Generate prompt \<notin> set (fst (answer impl w question k)))"
proof (intro impI)
  assume a: "resolve_crop (runtime w) (graph_db w) question = (t1, Inr crop) \<and>
   (crop = None \<and> t2 = [] \<or>
    (\<exists>c res. crop = Some c \<and>
       graph_answer_for_crop (runtime w) (graph_db w) question = (t2, Inr res) \<and>
       bullets_bn res = [])) \<and>
   search (vector_db w) (strip (question @ [32] @ AUG (detect_intent (runtime w) question))) k
     (max 32 (k * 8)) None (Some (py ''bn'')) True (7/10) = (t3, Inr [])"
  let ?i = "detect_intent (runtime w) question"
  have r: "resolve_crop (runtime w) (graph_db w) question = (t1, Inr crop)" using a by simp
  have v: "vector_fallback w ?i question k = (t3, Inr APOLOGY)"
    using a by (intro vector_fallback_empty) simp
  have gp: "graph_paths None (runtime w) (graph_db w) ?i question crop = (t2, Inr None)"
    using a graph_paths_none graph_paths_empty by blast
  have eq: "answer impl w question k = (t1 @ t2 @ t3, Inr APOLOGY)"
    by (simp add: answer_def import_fails answer_with_def Let_def r gp v and_then_def)
  have q1: "no_generation t1" using quiet_resolve_crop [of "runtime w" "graph_db w" question] r by simp
  have q2: "no_generation t2"
    using a quiet_graph_answer [of "runtime w" "graph_db w" question] by auto
  have q3: "no_generation t3"
    using a quiet_search [of "vector_db w" "strip (question @ [32] @ AUG ?i)" k "max 32 (k * 8)"
        None "Some (py ''bn'')" True "7/10"] by simp
  have q: "no_generation (fst (answer impl w question k))" using eq q1 q2 q3 by simp
  have "\<forall>prompt. Generate prompt \<notin> set (fst (answer impl w question k))"
  proof
    fix prompt
    show "Generate prompt \<notin> set (fst (answer impl w question k))"
    proof
      assume "Generate prompt \<in> set (fst (answer impl w question k))"
      then have "list_ex generates (fst (answer impl w question k))"
        by (auto simp: list_ex_iff intro!: bexI [of _ "Generate prompt"])
      then show False using q by (simp add: no_generation_def)
    qed
  qed
  then show "answer impl w question k = (t1 @ t2 @ t3, Inr APOLOGY) \<and>
       no_generation (fst (answer impl w question k)) \<and>
       (\<forall>prompt. Generate prompt \<notin> set (fst (answer impl w question k)))"
    using eq q by simp
qed

theorem answer_apology_witness:
  "resolve_crop (runtime demo_world) (graph_db demo_world) (py ''tomato disease'') =
     ([GraphQuery (CyExact (py ''tomato disease'')), GraphQuery (CyAlias (py ''tomato disease'')),
       GraphQuery (CyFt (py ''tomato disease'')), GraphQuery (CyContains (py ''tomato disease''))],
      Inr None) \<and>
   detect_intent (runtime demo_world) (py ''tomato disease'') = Some Disease \<and>
   search (vector_db demo_world)
     (strip (py ''tomato disease'' @ [32]
             @ AUG (detect_intent (runtime demo_world) (py ''tomato disease''))))
     5 (max 32 (5 * 8)) None (Some (py ''bn'')) True (7/10) =
     ([Encode (py ''query: '' @ strip (py ''tomato disease'' @ [32]
             @ AUG (detect_intent (runtime demo_world) (py ''tomato disease'')))), PgConnect],
      Inr []) \<and>
   answer no_diseases demo_world (py ''tomato disease'') 5 =
     ([GraphQuery (CyExact (py ''tomato disease'')), GraphQuery (CyAlias (py ''tomato disease'')),
       GraphQuery (CyFt (py ''tomato disease'')), GraphQuery (CyContains (py ''tomato disease''))]
      @ [] @
      [Encode (py ''query: '' @ strip (py ''tomato disease'' @ [32]
             @ AUG (detect_intent (runtime demo_world) (py ''tomato disease'')))), PgConnect],
      Inr APOLOGY) \<and>
   no_generation (fst (answer no_diseases demo_world (py ''tomato disease'') 5)) \<and>
   resolve_crop (runtime demo_world) (graph_db demo_world) (py ''jute'') =
     ([GraphQuery (CyExact (py ''jute''))], Inr (Some (crop_row jute))) \<and>
   bullets_bn (GraphRAG (crop_row jute)
               \<lparr>seasons = [], locations = [], climate_facts = Some (climate jute),
                 diseases = []\<rparr> []) = [] \<and>
   answer no_diseases demo_world (py ''jute'') 5 =
     ([GraphQuery (CyExact (py ''jute''))] @
      [GraphQuery (CyExact (py ''jute'')), GraphQuery (CySeasons (Some (py ''jute''))),
       GraphQuery (CyLocations (Some (py ''jute'')) 10),
       GraphQuery (CyClimate (Some (py ''jute''))),
       GraphQuery (CyDiseases (Some (py ''jute'')))] @
      [Encode (py ''query: '' @ strip (py ''jute'' @ [32]
             @ AUG (detect_intent (runtime demo_world) (py ''jute'')))), PgConnect],
      Inr APOLOGY)"
proof -
  let ?qt = "py ''tomato disease''"
  let ?st = "strip (?qt @ [32] @ AUG (detect_intent (runtime demo_world) ?qt))"
  let ?qj = "py ''jute''"
  let ?sj = "strip (?qj @ [32] @ AUG (detect_intent (runtime demo_world) ?qj))"
  let ?resj = "GraphRAG (crop_row jute)
               \<lparr>seasons = [], locations = [], climate_facts = Some (climate jute),
                 diseases = []\<rparr> []"
  have rt: "resolve_crop (runtime demo_world) (graph_db demo_world) ?qt =
     ([GraphQuery (CyExact ?qt), GraphQuery (CyAlias ?qt), GraphQuery (CyFt ?qt),
       GraphQuery (CyContains ?qt)], Inr None)"
    by (simp only: demo_world_sel demo_resolve_tomato)
  have it: "detect_intent (runtime demo_world) ?qt = Some Disease"
    by (simp only: demo_world_sel demo_intent_tomato)
  have st: "search (vector_db demo_world) ?st 5 (max 32 (5 * 8)) None (Some (py ''bn'')) True (7/10)
      = ([Encode (py ''query: '' @ ?st), PgConnect], Inr [])"
    by (simp only: demo_world_sel demo_search_empty)
  have ht: "resolve_crop (runtime demo_world) (graph_db demo_world) ?qt =
     ([GraphQuery (CyExact ?qt), GraphQuery (CyAlias ?qt), GraphQuery (CyFt ?qt),
       GraphQuery (CyContains ?qt)], Inr None) \<and>
     (None = None \<and> [] = [] \<or>
      (\<exists>c res. None = Some c \<and>
         graph_answer_for_crop (runtime demo_world) (graph_db demo_world) ?qt = ([], Inr res) \<and>
         bullets_bn res = [])) \<and>
     search (vector_db demo_world) ?st 5 (max 32 (5 * 8)) None (Some (py ''bn'')) True (7/10)
      = ([Encode (py ''query: '' @ ?st), PgConnect], Inr [])"
    using rt st by simp
  note At = answer_apology [where w = demo_world and question = ?qt and k = 5
      and impl = no_diseases and crop = None and ?t2.0 = "[]"
      and ?t1.0 = "[GraphQuery (CyExact ?qt), GraphQuery (CyAlias ?qt), GraphQuery (CyFt ?qt),
       GraphQuery (CyContains ?qt)]"
      and ?t3.0 = "[Encode (py ''query: '' @ ?st), PgConnect]", THEN mp, OF ht]
  have rj: "resolve_crop (runtime demo_world) (graph_db demo_world) ?qj =
     ([GraphQuery (CyExact ?qj)], Inr (Some (crop_row jute)))"
    by (simp only: demo_world_sel demo_resolve_jute)
  have gj: "graph_answer_for_crop (runtime demo_world) (graph_db demo_world) ?qj
     = ([GraphQuery (CyExact ?qj), GraphQuery (CySeasons (Some ?qj)),
         GraphQuery (CyLocations (Some ?qj) 10), GraphQuery (CyClimate (Some ?qj)),
         GraphQuery (CyDiseases (Some ?qj))], Inr ?resj)"
    by (simp only: demo_world_sel demo_answer_jute)
  have bj: "bullets_bn ?resj = []" by simp
  have sj: "search (vector_db demo_world) ?sj 5 (max 32 (5 * 8)) None (Some (py ''bn'')) True (7/10)
      = ([Encode (py ''query: '' @ ?sj), PgConnect], Inr [])"
    by (simp only: demo_world_sel demo_search_empty)
  have hj: "resolve_crop (runtime demo_world) (graph_db demo_world) ?qj =
     ([GraphQuery (CyExact ?qj)], Inr (Some (crop_row jute))) \<and>
     (Some (crop_row jute) = None \<and>
        [GraphQuery (CyExact ?qj), GraphQuery (CySeasons (Some ?qj)),
         GraphQuery (CyLocations (Some ?qj) 10), GraphQuery (CyClimate (Some ?qj)),
         GraphQuery (CyDiseases (Some ?qj))] = [] \<or>
      (\<exists>c res. Some (crop_row jute) = Some c \<and>
         graph_answer_for_crop (runtime demo_world) (graph_db demo_world) ?qj =
           ([GraphQuery (CyExact ?qj), GraphQuery (CySeasons (Some ?qj)),
             GraphQuery (CyLocations (Some ?qj) 10), GraphQuery (CyClimate (Some ?qj)),
             GraphQuery (CyDiseases (Some ?qj))], Inr res) \<and>
         bullets_bn res = [])) \<and>
     search (vector_db demo_world) ?sj 5 (max 32 (5 * 8)) None (Some (py ''bn'')) True (7/10)
      = ([Encode (py ''query: '' @ ?sj), PgConnect], Inr [])"
    using rj gj bj sj by blast
  note Aj = answer_apology [where w = demo_world and question = ?qj and k = 5
      and impl = no_diseases and crop = "Some (crop_row jute)"
      and ?t2.0 = "[GraphQuery (CyExact ?qj), GraphQuery (CySeasons (Some ?qj)),
         GraphQuery (CyLocations (Some ?qj) 10), GraphQuery (CyClimate (Some ?qj)),
         GraphQuery (CyDiseases (Some ?qj))]"
      and ?t1.0 = "[GraphQuery (CyExact ?qj)]"
      and ?t3.0 = "[Encode (py ''query: '' @ ?sj), PgConnect]", THEN mp, OF hj]
  show ?thesis
    using rt it st At [THEN conjunct1] At [THEN conjunct2, THEN conjunct1] rj bj Aj [THEN conjunct1]
    by (intro conjI)
qed

text \<open>
  Claim C2, evaluated where it fails. With the graph store down, the exact-match query of
  \<open>resolve_crop\<close> raises and \<open>answer\<close> ends with that exception after one call, without
  reaching the vector fallback. A failure of the full-text query alone ends \<open>resolve_crop\<close>
  although the substring tier would find the crop, whereas a failure of the alias query alone
  is absorbed. A vector query that raises ends \<open>answer\<close> with the exception.
\<close>

theorem store_failure_propagates:
  "answer no_diseases graph_down_world (py ''jute'') 5 =
     ([GraphQuery (CyExact (py ''jute''))], Inl StoreError) \<and>
   resolve_crop ascii_env fulltext_failing_graph (py ''ama'') =
     ([GraphQuery (CyExact (py ''ama'')), GraphQuery (CyAlias (py ''ama'')),
       GraphQuery (CyFt (py ''ama''))], Inl StoreError) \<and>
   resolve_crop ascii_env alias_failing_graph (py ''ama'') =
     ([GraphQuery (CyExact (py ''ama'')), GraphQuery (CyAlias (py ''ama'')),
       GraphQuery (CyFt (py ''ama'')), GraphQuery (CyContains (py ''ama''))],
      Inr (Some (crop_row aman))) \<and>
   answer no_diseases vector_failing_world (py ''hello'') 5 =
     ([GraphQuery (CyExact (py ''hello'')), GraphQuery (CyAlias (py ''hello'')),
       GraphQuery (CyFt (py ''hello'')), GraphQuery (CyContains (py ''hello'')),
       Encode (py ''query: hello''), PgConnect, PgQuery 40 None (Some (py ''bn''))],
      Inl StoreError)"
proof -
  have a: "answer no_diseases graph_down_world (py ''jute'') 5 =
     ([GraphQuery (CyExact (py ''jute''))], Inl StoreError)"
    by (simp add: answer_def import_fails answer_with_def Let_def failing_world_sel
        resolve_crop_def demo_norm_more run_def and_then_def)
  have tiers_ft: "tiers ascii_env fulltext_failing_graph (py ''ama'')
      = tiers ascii_env demo_graph (py ''ama'')"
    by (simp add: tiers_def fulltext_failing_graph_def cy_exact_def cy_alias_def cy_ft_def
        cy_contains_def exact_match_def [abs_def] contains_match_def [abs_def])
  have b: "resolve_crop ascii_env fulltext_failing_graph (py ''ama'') =
     ([GraphQuery (CyExact (py ''ama'')), GraphQuery (CyAlias (py ''ama'')),
       GraphQuery (CyFt (py ''ama''))], Inl StoreError)"
    using demo_tiers_ama [unfolded tiers_def]
    by (simp add: resolve_crop_def Let_def demo_norm run_def and_then_def attempt_def ret_def
        fulltext_failing_graph_def cy_exact_def cy_alias_def cy_ft_def
        cy_contains_def exact_match_def [abs_def] contains_match_def [abs_def])
  have c: "resolve_crop ascii_env alias_failing_graph (py ''ama'') =
     ([GraphQuery (CyExact (py ''ama'')), GraphQuery (CyAlias (py ''ama'')),
       GraphQuery (CyFt (py ''ama'')), GraphQuery (CyContains (py ''ama''))],
      Inr (Some (crop_row aman)))"
    using demo_tiers_ama [unfolded tiers_def]
    by (simp add: resolve_crop_def Let_def demo_norm run_def and_then_def attempt_def ret_def
        alias_failing_graph_def cy_exact_def cy_alias_def cy_ft_def
        cy_contains_def exact_match_def [abs_def] contains_match_def [abs_def])
  have i: "detect_intent ascii_env (py ''hello'') = None"
    by (simp add: detect_intent_def ascii_env_def ascii_lower_def py_def has_def
      DISEASE_def CLIMATE_def SEASON_def FERT_def)
  have aug: "AUG None = []" by (simp add: AUG_def)
  have st: "strip (py ''hello'' @ [32]) = py ''hello''"
    by (simp add: strip_def is_space_def py_def)
  have d: "answer no_diseases vector_failing_world (py ''hello'') 5 =
     ([GraphQuery (CyExact (py ''hello'')), GraphQuery (CyAlias (py ''hello'')),
       GraphQuery (CyFt (py ''hello'')), GraphQuery (CyContains (py ''hello'')),
       Encode (py ''query: hello''), PgConnect, PgQuery 40 None (Some (py ''bn''))],
      Inl StoreError)"
    by (simp add: answer_def import_fails answer_with_def Let_def failing_world_sel
        demo_resolve_hello graph_paths_none vector_fallback_def i aug st demo_search_failing
        and_then_def) (simp add: py_def)
  show ?thesis using a b c d by (intro conjI)
qed

end
